theory Spec2Isabelle
  imports Main
begin

section \<open>Strings\<close>

text \<open>
  A JavaScript string is a sequence of UTF-16 code units. It is modelled as \<open>string\<close>,
  each \<open>char\<close> being the code unit of that number: the model covers the strings whose
  code units are below 256 (U+0000 to U+00FF), and on them \<^verbatim>\<open>length\<close>,
  \<^verbatim>\<open>trim\<close> and \<^verbatim>\<open>toLowerCase\<close> work code unit by code unit.
\<close>

text \<open>
  What \<^verbatim>\<open>String.prototype.trim\<close> strips: the white space and the line terminators
  of ECMAScript. Below 256 these are TAB, LF, VT, FF, CR, SPACE and the no-break space
  U+00A0 (the others, U+FEFF, U+2028, U+2029 and the space separators from U+1680 on,
  lie above the range of \<open>char\<close>; U+0085 is not among them).
\<close>

definition is_space :: "char \<Rightarrow> bool" where
  "is_space c = (c = CHR '' '' \<or> c = CHR 0x09 \<or> c = CHR 0x0A \<or> c = CHR 0x0B
                 \<or> c = CHR 0x0C \<or> c = CHR 0x0D \<or> c = CHR 0xA0)"

definition trim :: "string \<Rightarrow> string" where
  "trim s = rev (dropWhile is_space (rev (dropWhile is_space s)))"

text \<open>
  \<^verbatim>\<open>toLowerCase\<close> on one code unit: A to Z, and in the upper half U+00C0 to U+00DE
  other than the multiplication sign U+00D7, move up by 32.
\<close>

definition lower_char :: "char \<Rightarrow> char" where
  "lower_char c =
     (if (65 \<le> (of_char c :: nat) \<and> (of_char c :: nat) \<le> 90)
         \<or> (192 \<le> (of_char c :: nat) \<and> (of_char c :: nat) \<le> 222 \<and> (of_char c :: nat) \<noteq> 215)
      then char_of ((of_char c :: nat) + 32) else c)"

definition toLowerCase :: "string \<Rightarrow> string" where
  "toLowerCase s = map lower_char s"

definition startsWith :: "string \<Rightarrow> string \<Rightarrow> bool" where
  "startsWith s p = (take (length p) s = p)"

definition endsWith :: "string \<Rightarrow> string \<Rightarrow> bool" where
  "endsWith s p = (length p \<le> length s \<and> drop (length s - length p) s = p)"

fun str_includes :: "string \<Rightarrow> string \<Rightarrow> bool" where
  "str_includes [] sub = (sub = [])"
| "str_includes (c # cs) sub = (startsWith (c # cs) sub \<or> str_includes cs sub)"

text \<open>\<^verbatim>\<open>parts.join(sep)\<close> on strings.\<close>

fun join :: "string \<Rightarrow> string list \<Rightarrow> string" where
  "join sep [] = []"
| "join sep [x] = x"
| "join sep (x # y # ys) = x @ sep @ join sep (y # ys)"

text \<open>Decimal rendering of a number inside a template string.\<close>

definition digit_char :: "nat \<Rightarrow> char" where
  "digit_char d = char_of (48 + d)"

fun show_nat :: "nat \<Rightarrow> string" where
  "show_nat n = (if n < 10 then [digit_char n] else show_nat (n div 10) @ [digit_char (n mod 10)])"

declare show_nat.simps [simp del]

definition show_int :: "int \<Rightarrow> string" where
  "show_int i = (if i < 0 then CHR ''-'' # show_nat (nat (- i)) else show_nat (nat i))"

text \<open>\<^verbatim>\<open>a || d\<close> where \<open>a\<close> is a string or \<^verbatim>\<open>undefined\<close> and \<open>d\<close> a string.\<close>

fun or_str :: "string option \<Rightarrow> string \<Rightarrow> string" where
  "or_str None d = d"
| "or_str (Some s) d = (if s \<noteq> [] then s else d)"

fun truthy_str :: "string option \<Rightarrow> bool" where
  "truthy_str None = False"
| "truthy_str (Some s) = (s \<noteq> [])"

section \<open>Exceptions\<close>

text \<open>
  A synchronous step either finishes or throws. The program mutates \<^verbatim>\<open>results\<close> in
  place, so the handler that catches an exception sees the state as it was at the
  throw: \<open>Threw\<close> carries the exception's \<^verbatim>\<open>message\<close> and that state.
\<close>

datatype 'a outcome = Done 'a | Threw string 'a

fun bind_outcome :: "'a outcome \<Rightarrow> ('a \<Rightarrow> 'a outcome) \<Rightarrow> 'a outcome" where
  "bind_outcome (Done r) f = f r"
| "bind_outcome (Threw m r) f = Threw m r"

section \<open>The document tree\<close>

text \<open>
  What \<^verbatim>\<open>cheerio.load\<close> returns, seen through the queries the program makes: elements
  with a tag name, attributes and children, and text nodes. Tag and attribute names
  are as the HTML parser stores them, in lower case.
\<close>

datatype node =
    Element (tag: string) (attrs: "(string \<times> string) list") (children: "node list")
  | TextNode string

fun attr :: "node \<Rightarrow> string \<Rightarrow> string option" where
  "attr (Element t as cs) name = map_of as name"
| "attr (TextNode s) name = None"

fun tag_of :: "node \<Rightarrow> string option" where
  "tag_of (Element t as cs) = Some t"
| "tag_of (TextNode s) = None"

fun kids :: "node \<Rightarrow> node list" where
  "kids (Element t as cs) = cs"
| "kids (TextNode s) = []"

text \<open>\<^verbatim>\<open>$(elem).text()\<close>: the text of all descendants, in document order.\<close>

fun text_of :: "node \<Rightarrow> string" where
  "text_of (TextNode s) = s"
| "text_of (Element t as cs) = concat (map text_of cs)"

text \<open>
  All elements of a subtree in document order, the root included, each with its
  ancestors (nearest first). \<open>anc\<close> holds the ancestors of the root.
\<close>

fun elements_anc :: "node list \<Rightarrow> node \<Rightarrow> (node \<times> node list) list" where
  "elements_anc anc (TextNode s) = []"
| "elements_anc anc (Element t as cs) =
     (Element t as cs, anc) # concat (map (elements_anc (Element t as cs # anc)) cs)"

definition elements :: "node \<Rightarrow> node list" where
  "elements doc = map fst (elements_anc [] doc)"

text \<open>\<^verbatim>\<open>$elem.find(sel)\<close>: the proper descendants of an element.\<close>

definition descendants_anc :: "node list \<Rightarrow> node \<Rightarrow> (node \<times> node list) list" where
  "descendants_anc anc elem = concat (map (elements_anc (elem # anc)) (kids elem))"

definition has_attr :: "string \<Rightarrow> node \<Rightarrow> bool" where
  "has_attr name elem = (attr elem name \<noteq> None)"

definition has_tag :: "string \<Rightarrow> node \<Rightarrow> bool" where
  "has_tag t elem = (tag_of elem = Some t)"

text \<open>
  The attribute selector \<^verbatim>\<open>[name="v"]\<close>. In an HTML document the selector engine
  compares the values of a fixed list of attributes without regard to case, among
  them \<^verbatim>\<open>type\<close>, \<^verbatim>\<open>rel\<close> and \<^verbatim>\<open>http-equiv\<close> (\<open>attr_is_ci\<close>); the values of
  \<^verbatim>\<open>name\<close> and \<^verbatim>\<open>property\<close> are compared exactly (\<open>attr_is\<close>).
\<close>

definition attr_is :: "string \<Rightarrow> string \<Rightarrow> node \<Rightarrow> bool" where
  "attr_is name v elem = (attr elem name = Some v)"

definition attr_is_ci :: "string \<Rightarrow> string \<Rightarrow> node \<Rightarrow> bool" where
  "attr_is_ci name v elem =
     (case attr elem name of
        None \<Rightarrow> False
      | Some a \<Rightarrow> toLowerCase a = toLowerCase v)"

text \<open>\<^verbatim>\<open>$(sel).attr(name)\<close>: the attribute of the first matched element.\<close>

fun first_attr :: "node list \<Rightarrow> string \<Rightarrow> string option" where
  "first_attr [] name = None"
| "first_attr (e # es) name = attr e name"

section \<open>JavaScript values\<close>

text \<open>
  The values that \<^verbatim>\<open>JSON.parse\<close> produces and that the parser stores in its schema
  objects. The program never computes with a number: it tests it as a condition and
  it converts it to a string. A number is therefore given by those two observations,
  \<open>JNum b s\<close> being a number that is truthy iff \<open>b\<close> (false for 0 only) and that
  \<^verbatim>\<open>String\<close> renders as \<open>s\<close> (in exponent form from 1e21 on, as the
  runtime does). \<^verbatim>\<open>undefined\<close> (an absent property) is \<open>None\<close> of \<open>json option\<close>.
\<close>

datatype json =
    JNull
  | JBool bool
  | JNum bool string
  | JStr string
  | JArr "json list"
  | JObj "(string \<times> json) list"

text \<open>JavaScript truthiness: what \<^verbatim>\<open>if (v)\<close> and \<^verbatim>\<open>!v\<close> test.\<close>

fun truthy :: "json \<Rightarrow> bool" where
  "truthy JNull = False"
| "truthy (JBool b) = b"
| "truthy (JNum b s) = b"
| "truthy (JStr s) = (s \<noteq> [])"
| "truthy (JArr xs) = True"
| "truthy (JObj kvs) = True"

fun truthy_opt :: "json option \<Rightarrow> bool" where
  "truthy_opt None = False"
| "truthy_opt (Some v) = truthy v"

text \<open>\<^verbatim>\<open>typeof v === 'object'\<close>.\<close>

fun is_object :: "json \<Rightarrow> bool" where
  "is_object JNull = True"
| "is_object (JArr xs) = True"
| "is_object (JObj kvs) = True"
| "is_object v = False"

text \<open>\<^verbatim>\<open>v.name\<close> on a value that is neither \<^verbatim>\<open>null\<close> nor \<^verbatim>\<open>undefined\<close>, for the
  property names the validators read (none of them a built-in property of a string,
  a number or an array).\<close>

fun prop_get :: "json \<Rightarrow> string \<Rightarrow> json option" where
  "prop_get (JObj kvs) name = map_of kvs name"
| "prop_get v name = None"

text \<open>\<^verbatim>\<open>String(v)\<close>, which a template string and a property key apply.\<close>

fun js_to_string :: "json \<Rightarrow> string" where
  "js_to_string JNull = ''null''"
| "js_to_string (JBool b) = (if b then ''true'' else ''false'')"
| "js_to_string (JNum b s) = s"
| "js_to_string (JStr s) = s"
| "js_to_string (JArr xs) =
     join '','' (map (\<lambda>x. if x = JNull then [] else js_to_string x) xs)"
| "js_to_string (JObj kvs) = ''[object Object]''"

text \<open>\<^verbatim>\<open>obj[k] = v\<close>: an existing key keeps its place, a new key goes last.\<close>

definition obj_set :: "(string \<times> json) list \<Rightarrow> string \<Rightarrow> json \<Rightarrow> (string \<times> json) list" where
  "obj_set kvs k v =
     (if map_of kvs k = None then kvs @ [(k, v)]
      else map (\<lambda>kv. if fst kv = k then (k, v) else kv) kvs)"

text \<open>\<^verbatim>\<open>Object.keys(v)\<close> with the values: the entries of an object, the indexed
  elements of an array.\<close>

fun own_entries :: "json \<Rightarrow> (string \<times> json) list" where
  "own_entries (JObj kvs) = kvs"
| "own_entries (JArr xs) = zip (map show_nat [0..<length xs]) xs"
| "own_entries v = []"

section \<open>The host environment\<close>

text \<open>
  Built-in functions of the JavaScript runtime that the program calls and that are no
  part of the repository. \<open>JSON_parse\<close> is \<^verbatim>\<open>JSON.parse\<close> (\<open>Inl\<close> the message of the
  SyntaxError); \<open>Date_valid v\<close> is \<^verbatim>\<open>!isNaN(new Date(v))\<close>; \<open>URL_parse u\<close> is the
  hostname of \<^verbatim>\<open>new URL(u)\<close> and \<open>URL_resolve href base\<close> the hostname of
  \<^verbatim>\<open>new URL(href, base)\<close> (\<open>Inl\<close> the message of the TypeError the constructor
  throws; \<open>isl\<close> tests for it).
\<close>

record host =
  JSON_parse :: "string \<Rightarrow> string + json"
  Date_valid :: "json \<Rightarrow> bool"
  URL_parse :: "string \<Rightarrow> string + string"
  URL_resolve :: "string \<Rightarrow> string \<Rightarrow> string + string"

section \<open>StructuredDataParser: the result record\<close>

record schema_record =
  format :: string
  stype :: json
  properties :: "(string \<times> json) list"
  rec_errors :: "string list"
  rec_warnings :: "string list"

text \<open>
  The object \<^verbatim>\<open>results\<close> of \<^verbatim>\<open>parse\<close>. \<open>errors\<close> and \<open>warnings\<close> are
  \<^verbatim>\<open>results.validation.errors\<close> and \<^verbatim>\<open>results.validation.warnings\<close>;
  \<open>critical\<close>, \<open>issue_warnings\<close> and \<open>passed\<close> are the three counters of
  \<^verbatim>\<open>results.issues\<close>; \<open>error\<close> is \<open>None\<close> while the property is not set.
\<close>

record audit_result =
  url :: string
  timestamp :: string
  status :: string
  error :: "string option"
  jsonLd :: "schema_record list"
  microdata :: "schema_record list"
  rdfa :: "schema_record list"
  schemas :: "schema_record list"
  errors :: "string list"
  warnings :: "string list"
  recommendations :: "string list"
  score :: int
  critical :: int
  issue_warnings :: int
  passed :: int

section \<open>StructuredDataParser: extraction\<close>

text \<open>
  \<^verbatim>\<open>_processSchema\<close> ends with the call \<^verbatim>\<open>this._validateSchemaType(processed)\<close>.
  The class \<^verbatim>\<open>StructuredDataParser\<close> defines no method of that name and nothing
  adds one to its prototype, so the callee is \<^verbatim>\<open>undefined\<close> and the call throws a
  TypeError with the message below.
\<close>

definition validateSchemaType :: "schema_record \<Rightarrow> string + unit" where
  "validateSchemaType processed = Inl ''this._validateSchemaType is not a function''"

text \<open>\<^verbatim>\<open>_processSchema(schema, format)\<close>, lines 235-257.\<close>

definition processSchema :: "json \<Rightarrow> string \<Rightarrow> string + schema_record" where
  "processSchema schema fmt =
     (let processed =
        \<lparr> format = fmt,
          stype = (case prop_get schema ''@type'' of
                     None \<Rightarrow> JStr ''Unknown''
                   | Some t \<Rightarrow> if truthy t then t else JStr ''Unknown''),
          properties = filter (\<lambda>kv. \<not> startsWith (fst kv) ''@'' \<and> fst kv \<noteq> ''_format'')
                         (own_entries schema),
          rec_errors = [],
          rec_warnings = [] \<rparr>
      in case validateSchemaType processed of
           Inl msg \<Rightarrow> Inl msg
         | Inr u \<Rightarrow> Inr processed)"

text \<open>The catch block of \<^verbatim>\<open>_parseJsonLd\<close>, lines 105-108.\<close>

definition invalidJsonLd :: "string \<Rightarrow> audit_result \<Rightarrow> audit_result" where
  "invalidJsonLd msg results =
     results\<lparr> errors := errors results @ [''Invalid JSON-LD: '' @ msg],
              critical := critical results + 1 \<rparr>"

text \<open>\<^verbatim>\<open>schemas.forEach(schema => ...)\<close>, lines 97-103.\<close>

fun jsonLd_forEach :: "json list \<Rightarrow> audit_result \<Rightarrow> audit_result outcome" where
  "jsonLd_forEach [] results = Done results"
| "jsonLd_forEach (schema # rest) results =
     (if truthy schema \<and> is_object schema then
        (case processSchema schema ''JSON-LD'' of
           Inl msg \<Rightarrow> Threw msg results
         | Inr processed \<Rightarrow>
             jsonLd_forEach rest
               (results\<lparr> jsonLd := jsonLd results @ [processed],
                         schemas := schemas results @ [processed] \<rparr>))
      else jsonLd_forEach rest results)"

text \<open>The body of \<^verbatim>\<open>scripts.each\<close> for one script element, lines 91-108; the
  content that \<^verbatim>\<open>$(elem).html()\<close> returns for a script element is its text.\<close>

definition jsonLd_block :: "host \<Rightarrow> node \<Rightarrow> audit_result \<Rightarrow> audit_result" where
  "jsonLd_block h elem results =
     (case JSON_parse h (text_of elem) of
        Inl msg \<Rightarrow> invalidJsonLd msg results
      | Inr json \<Rightarrow>
          (case jsonLd_forEach (case json of JArr xs \<Rightarrow> xs | _ \<Rightarrow> [json]) results of
             Done results' \<Rightarrow> results'
           | Threw msg results' \<Rightarrow> invalidJsonLd msg results'))"

definition jsonLd_scripts :: "node \<Rightarrow> node list" where
  "jsonLd_scripts doc =
     filter (\<lambda>e. has_tag ''script'' e \<and> attr_is_ci ''type'' ''application/ld+json'' e)
       (elements doc)"

text \<open>\<^verbatim>\<open>_parseJsonLd($, results)\<close>, lines 87-110.\<close>

definition parseJsonLd :: "host \<Rightarrow> node \<Rightarrow> audit_result \<Rightarrow> audit_result" where
  "parseJsonLd h doc results = foldl (\<lambda>r elem. jsonLd_block h elem r) results (jsonLd_scripts doc)"

text \<open>
  \<^verbatim>\<open>_extractTypeFromUrl(url)\<close>, lines 658-661: the leftmost match of
  \<^verbatim>\<open>/schema\.org\/(.+)$/\<close>, whose group is the rest of the string; the rest must be
  non-empty and free of line terminators.
\<close>

definition line_terminator :: "char \<Rightarrow> bool" where
  "line_terminator c = (c = CHR 0x0A \<or> c = CHR 0x0D)"

fun match_schema_org :: "string \<Rightarrow> string option" where
  "match_schema_org [] = None"
| "match_schema_org (c # cs) =
     (let rest = drop 11 (c # cs) in
      if startsWith (c # cs) ''schema.org/'' \<and> rest \<noteq> [] \<and> filter line_terminator rest = []
      then Some rest else match_schema_org cs)"

definition extractTypeFromUrl :: "string \<Rightarrow> string" where
  "extractTypeFromUrl u = (case match_schema_org u of Some t \<Rightarrow> t | None \<Rightarrow> ''Thing'')"

text \<open>
  \<^verbatim>\<open>_getMicrodataValue\<close> calls \<^verbatim>\<open>this._extractNestedMicrodata($elem)\<close> for a nested
  item. The class defines no such method either: the call throws a TypeError.
\<close>

definition extractNestedMicrodata :: "node \<Rightarrow> string + json" where
  "extractNestedMicrodata elem = Inl ''this._extractNestedMicrodata is not a function''"

text \<open>\<^verbatim>\<open>_getMicrodataValue($elem)\<close>, lines 171-182.\<close>

definition getMicrodataValue :: "node \<Rightarrow> string + json" where
  "getMicrodataValue elem =
     (if attr elem ''itemscope'' \<noteq> None then extractNestedMicrodata elem
      else Inr (JStr (or_str (attr elem ''content'')
                     (or_str (attr elem ''src'')
                     (or_str (attr elem ''href'') (trim (text_of elem)))))))"

text \<open>
  The test of line 151 is \<^verbatim>\<open>propName && !$prop.parents('[itemscope]').length > 1\<close>.
  The operator \<^verbatim>\<open>!\<close> binds tighter than \<^verbatim>\<open>>\<close>: the length is negated to a boolean
  first, and the boolean is then compared with 1 as the number 1 or 0.
\<close>

definition js_not_num :: "nat \<Rightarrow> bool" where
  "js_not_num n = (n = 0)"

definition js_bool_gt :: "bool \<Rightarrow> int \<Rightarrow> bool" where
  "js_bool_gt b k = ((if b then 1 else 0) > k)"

text \<open>Lines 154-162: the first value of a property is stored as it is, a later one
  turns the entry into an array.\<close>

definition add_value :: "(string \<times> json) list \<Rightarrow> string \<Rightarrow> json \<Rightarrow> (string \<times> json) list" where
  "add_value schema propName v =
     (if truthy_opt (map_of schema propName) then
        (case map_of schema propName of
           Some (JArr xs) \<Rightarrow> obj_set schema propName (JArr (xs @ [v]))
         | Some old \<Rightarrow> obj_set schema propName (JArr [old, v])
         | None \<Rightarrow> schema)
      else obj_set schema propName v)"

text \<open>\<^verbatim>\<open>properties.each((i, elem) => ...)\<close>, lines 147-164; every element comes
  with its ancestors in the document.\<close>

fun microdata_each ::
  "(node \<times> node list) list \<Rightarrow> (string \<times> json) list \<Rightarrow> string + (string \<times> json) list" where
  "microdata_each [] schema = Inr schema"
| "microdata_each ((prop, anc) # rest) schema =
     (case attr prop ''itemprop'' of
        None \<Rightarrow> microdata_each rest schema
      | Some propName \<Rightarrow>
          if propName \<noteq> [] \<and>
             js_bool_gt (js_not_num (length (filter (has_attr ''itemscope'') anc))) 1
          then (case getMicrodataValue prop of
                  Inl msg \<Rightarrow> Inl msg
                | Inr v \<Rightarrow> microdata_each rest (add_value schema propName v))
          else microdata_each rest schema)"

text \<open>\<^verbatim>\<open>_extractMicrodataProperties($, $item, schema)\<close>, lines 144-165; \<open>anc\<close> are the
  ancestors of the item.\<close>

definition extractMicrodataProperties ::
  "node list \<Rightarrow> node \<Rightarrow> (string \<times> json) list \<Rightarrow> string + (string \<times> json) list" where
  "extractMicrodataProperties anc item schema =
     microdata_each (filter (\<lambda>p. has_attr ''itemprop'' (fst p)) (descendants_anc anc item)) schema"

definition push_schema ::
  "schema_record \<Rightarrow> string \<Rightarrow> audit_result \<Rightarrow> audit_result" where
  "push_schema processed fmt results =
     (if fmt = ''Microdata''
      then results\<lparr> microdata := microdata results @ [processed],
                    schemas := schemas results @ [processed] \<rparr>
      else results\<lparr> rdfa := rdfa results @ [processed],
                    schemas := schemas results @ [processed] \<rparr>)"

text \<open>\<^verbatim>\<open>items.each((i, elem) => ...)\<close> of \<^verbatim>\<open>_parseMicrodata\<close>, lines 119-137.\<close>

fun microdata_items :: "(node \<times> node list) list \<Rightarrow> audit_result \<Rightarrow> audit_result outcome" where
  "microdata_items [] results = Done results"
| "microdata_items ((item, anc) # rest) results =
     (if truthy_str (attr item ''itemtype'') then
        (case extractMicrodataProperties anc item
                [(''@type'', JStr (extractTypeFromUrl (or_str (attr item ''itemtype'') []))),
                 (''@context'', JStr ''http://schema.org''),
                 (''_format'', JStr ''Microdata'')] of
           Inl msg \<Rightarrow> Threw msg results
         | Inr schema \<Rightarrow>
             (case processSchema (JObj schema) ''Microdata'' of
                Inl msg \<Rightarrow> Threw msg results
              | Inr processed \<Rightarrow>
                  microdata_items rest (push_schema processed ''Microdata'' results)))
      else microdata_items rest results)"

text \<open>\<^verbatim>\<open>_parseMicrodata($, results)\<close>, lines 116-138.\<close>

definition parseMicrodata :: "node \<Rightarrow> audit_result \<Rightarrow> audit_result outcome" where
  "parseMicrodata doc results =
     microdata_items (filter (\<lambda>p. has_attr ''itemscope'' (fst p)) (elements_anc [] doc)) results"

text \<open>\<^verbatim>\<open>_extractRDFaProperties($, $elem, schema)\<close>, lines 217-229.\<close>

fun rdfa_each :: "node list \<Rightarrow> (string \<times> json) list \<Rightarrow> (string \<times> json) list" where
  "rdfa_each [] schema = schema"
| "rdfa_each (prop # rest) schema =
     (let propName = attr prop ''property'';
          content = or_str (attr prop ''content'') (trim (text_of prop))
      in if truthy_str propName \<and> content \<noteq> []
         then rdfa_each rest (obj_set schema (or_str propName []) (JStr content))
         else rdfa_each rest schema)"

definition extractRDFaProperties :: "node \<Rightarrow> (string \<times> json) list \<Rightarrow> (string \<times> json) list" where
  "extractRDFaProperties elem schema =
     rdfa_each (filter (has_attr ''property'') (map fst (descendants_anc [] elem))) schema"

text \<open>\<^verbatim>\<open>rdfaElements.each((i, elem) => ...)\<close> of \<^verbatim>\<open>_parseRDFa\<close>, lines 191-210.\<close>

fun rdfa_items :: "node list \<Rightarrow> audit_result \<Rightarrow> audit_result outcome" where
  "rdfa_items [] results = Done results"
| "rdfa_items (elem # rest) results =
     (if truthy_str (attr elem ''typeof'') then
        (case processSchema
                (JObj (extractRDFaProperties elem
                   [(''@type'', JStr (or_str (attr elem ''typeof'') [])),
                    (''@context'', JStr (or_str (attr elem ''vocab'') ''http://schema.org/'')),
                    (''_format'', JStr ''RDFa'')]))
                ''RDFa'' of
           Inl msg \<Rightarrow> Threw msg results
         | Inr processed \<Rightarrow> rdfa_items rest (push_schema processed ''RDFa'' results))
      else rdfa_items rest results)"

text \<open>\<^verbatim>\<open>_parseRDFa($, results)\<close>, lines 188-211.\<close>

definition parseRDFa :: "node \<Rightarrow> audit_result \<Rightarrow> audit_result outcome" where
  "parseRDFa doc results = rdfa_items (filter (has_attr ''typeof'') (elements doc)) results"

section \<open>StructuredDataParser: validation\<close>

text \<open>\<^verbatim>\<open>schema.properties[prop]\<close> read as a condition.\<close>

definition has_prop :: "schema_record \<Rightarrow> string \<Rightarrow> bool" where
  "has_prop schema prop = truthy_opt (map_of (properties schema) prop)"

text \<open>An error is pushed together with \<^verbatim>\<open>results.issues.critical++\<close>, a warning
  together with \<^verbatim>\<open>results.issues.warnings++\<close>, at every place of the validators.\<close>

definition add_error :: "string \<Rightarrow> audit_result \<Rightarrow> audit_result" where
  "add_error msg results =
     results\<lparr> errors := errors results @ [msg], critical := critical results + 1 \<rparr>"

definition add_warning :: "string \<Rightarrow> audit_result \<Rightarrow> audit_result" where
  "add_warning msg results =
     results\<lparr> warnings := warnings results @ [msg],
              issue_warnings := issue_warnings results + 1 \<rparr>"

text \<open>\<^verbatim>\<open>_checkRequiredProperties(schema, required, results)\<close>, lines 530-539.\<close>

definition checkRequiredProperties ::
  "schema_record \<Rightarrow> string list \<Rightarrow> audit_result \<Rightarrow> audit_result" where
  "checkRequiredProperties schema required results =
     foldl (\<lambda>r prop.
              if \<not> has_prop schema prop
              then add_error (js_to_string (stype schema) @ '' missing required property: '' @ prop) r
              else r)
       results required"

text \<open>\<^verbatim>\<open>_checkRecommendedProperties(schema, recommended, results)\<close>, lines 545-554.\<close>

definition checkRecommendedProperties ::
  "schema_record \<Rightarrow> string list \<Rightarrow> audit_result \<Rightarrow> audit_result" where
  "checkRecommendedProperties schema recommended results =
     (let missing = filter (\<lambda>prop. \<not> has_prop schema prop) recommended
      in if length missing > 0
         then add_warning (js_to_string (stype schema) @ '' missing recommended properties: ''
                           @ join '', '' missing) results
         else results)"

text \<open>\<^verbatim>\<open>Array.isArray(v) ? v : [v]\<close>.\<close>

fun as_array :: "json \<Rightarrow> json list" where
  "as_array (JArr xs) = xs"
| "as_array v = [v]"

text \<open>Reading a property of \<^verbatim>\<open>null\<close> throws a TypeError.\<close>

definition null_read :: "string \<Rightarrow> string" where
  "null_read name = ''Cannot read properties of null (reading '' @ [CHR 0x27] @ name @ [CHR 0x27] @ '')''"

text \<open>\<^verbatim>\<open>_validateOrganization(schema, results)\<close>, lines 292-306.\<close>

definition validateOrganization :: "schema_record \<Rightarrow> audit_result \<Rightarrow> audit_result outcome" where
  "validateOrganization schema results =
     (let r1 = checkRequiredProperties schema [''name'', ''url''] results;
          r2 = checkRecommendedProperties schema
                 [''logo'', ''sameAs'', ''contactPoint'', ''address''] r1
      in Done (case map_of (properties schema) ''logo'' of
                 Some (JStr s) \<Rightarrow>
                   if s \<noteq> []
                   then add_warning
                          ''Organization logo should be an ImageObject with width and height'' r2
                   else r2
               | _ \<Rightarrow> r2))"

text \<open>\<^verbatim>\<open>offers.forEach(offer => ...)\<close>, lines 325-334.\<close>

fun offers_forEach :: "json list \<Rightarrow> audit_result \<Rightarrow> audit_result outcome" where
  "offers_forEach [] results = Done results"
| "offers_forEach (offer # rest) results =
     (if offer = JNull then Threw (null_read ''price'') results
      else
        (let r1 = (if \<not> truthy_opt (prop_get offer ''price'')
                      \<and> \<not> truthy_opt (prop_get offer ''priceRange'')
                   then add_error ''Product offer missing price information'' results
                   else results);
             r2 = (if \<not> truthy_opt (prop_get offer ''priceCurrency'')
                   then add_error ''Product offer missing priceCurrency'' r1
                   else r1)
         in offers_forEach rest r2))"

text \<open>\<^verbatim>\<open>_validateProduct(schema, results)\<close>, lines 312-344.\<close>

definition validateProduct :: "schema_record \<Rightarrow> audit_result \<Rightarrow> audit_result outcome" where
  "validateProduct schema results =
     (let r1 = checkRequiredProperties schema [''name'', ''image''] results;
          r2 = checkRecommendedProperties schema
                 [''description'', ''sku'', ''offers'', ''aggregateRating'', ''brand'', ''review''] r1
      in bind_outcome
           (case map_of (properties schema) ''offers'' of
              None \<Rightarrow> Done r2
            | Some offers \<Rightarrow>
                if truthy offers then offers_forEach (as_array offers) r2 else Done r2)
           (\<lambda>r3. Done (if \<not> has_prop schema ''aggregateRating'' \<and> \<not> has_prop schema ''review''
                        then add_warning
                               ''Product missing ratings/reviews - needed for rich results'' r3
                        else r3)))"

text \<open>\<^verbatim>\<open>_validateArticle(schema, results)\<close>, lines 350-376.\<close>

definition validateArticle ::
  "host \<Rightarrow> schema_record \<Rightarrow> audit_result \<Rightarrow> audit_result outcome" where
  "validateArticle h schema results =
     (let r1 = checkRequiredProperties schema
                 [''headline'', ''image'', ''author'', ''datePublished''] results;
          r2 = checkRecommendedProperties schema
                 [''dateModified'', ''publisher'', ''mainEntityOfPage'', ''description''] r1;
          r3 = (case map_of (properties schema) ''image'' of
                  None \<Rightarrow> r2
                | Some images \<Rightarrow>
                    if truthy images \<and> length (as_array images) = 0
                    then add_error ''Article requires at least one image'' r2
                    else r2)
      in Done (case map_of (properties schema) ''datePublished'' of
                 None \<Rightarrow> r3
               | Some d \<Rightarrow>
                   if truthy d \<and> \<not> Date_valid h d
                   then add_error ''Invalid datePublished format - use ISO 8601'' r3
                   else r3))"

text \<open>\<^verbatim>\<open>items.forEach((item, index) => ...)\<close>, lines 393-406.\<close>

fun breadcrumb_forEach :: "nat \<Rightarrow> json list \<Rightarrow> audit_result \<Rightarrow> audit_result outcome" where
  "breadcrumb_forEach index [] results = Done results"
| "breadcrumb_forEach index (item # rest) results =
     (if item = JNull then Threw (null_read ''position'') results
      else
        (let r1 = (if \<not> truthy_opt (prop_get item ''position'')
                   then add_error (''BreadcrumbList item '' @ show_nat index @ '' missing position'')
                          results
                   else results);
             r2 = (if \<not> truthy_opt (prop_get item ''name'')
                   then add_error (''BreadcrumbList item '' @ show_nat index @ '' missing name'') r1
                   else r1)
         in breadcrumb_forEach (Suc index) rest r2))"

text \<open>\<^verbatim>\<open>_validateBreadcrumbList(schema, results)\<close>, lines 382-407.\<close>

definition validateBreadcrumbList :: "schema_record \<Rightarrow> audit_result \<Rightarrow> audit_result outcome" where
  "validateBreadcrumbList schema results =
     (case map_of (properties schema) ''itemListElement'' of
        None \<Rightarrow> Done (add_error ''BreadcrumbList missing itemListElement'' results)
      | Some v \<Rightarrow>
          if \<not> truthy v then Done (add_error ''BreadcrumbList missing itemListElement'' results)
          else breadcrumb_forEach 0 (as_array v) results)"

text \<open>\<^verbatim>\<open>questions.forEach((question, index) => ...)\<close>, lines 424-438.\<close>

fun faq_forEach :: "nat \<Rightarrow> json list \<Rightarrow> audit_result \<Rightarrow> audit_result outcome" where
  "faq_forEach index [] results = Done results"
| "faq_forEach index (question # rest) results =
     (if question = JNull then Threw (null_read ''name'') results
      else
        (let r1 = (if \<not> truthy_opt (prop_get question ''name'')
                   then add_error (''FAQ question '' @ show_nat index @ '' missing name'') results
                   else results);
             r2 = (case prop_get question ''acceptedAnswer'' of
                     None \<Rightarrow>
                       add_error (''FAQ question '' @ show_nat index @ '' missing acceptedAnswer'') r1
                   | Some a \<Rightarrow>
                       if \<not> truthy a
                       then add_error
                              (''FAQ question '' @ show_nat index @ '' missing acceptedAnswer'') r1
                       else if \<not> truthy_opt (prop_get a ''text'')
                       then add_error
                              (''FAQ question '' @ show_nat index @ '' acceptedAnswer missing text'')
                              r1
                       else r1)
         in faq_forEach (Suc index) rest r2))"

text \<open>\<^verbatim>\<open>_validateFAQPage(schema, results)\<close>, lines 413-439.\<close>

definition validateFAQPage :: "schema_record \<Rightarrow> audit_result \<Rightarrow> audit_result outcome" where
  "validateFAQPage schema results =
     (case map_of (properties schema) ''mainEntity'' of
        None \<Rightarrow> Done (add_error ''FAQPage missing mainEntity'' results)
      | Some v \<Rightarrow>
          if \<not> truthy v then Done (add_error ''FAQPage missing mainEntity'' results)
          else faq_forEach 0 (as_array v) results)"

text \<open>\<^verbatim>\<open>_validateRecipe(schema, results)\<close>, lines 445-454.\<close>

definition validateRecipe :: "schema_record \<Rightarrow> audit_result \<Rightarrow> audit_result outcome" where
  "validateRecipe schema results =
     (let r1 = checkRequiredProperties schema
                 [''name'', ''image'', ''recipeIngredient'', ''recipeInstructions''] results
      in Done (checkRecommendedProperties schema
                 [''prepTime'', ''cookTime'', ''totalTime'', ''recipeYield'',
                  ''nutrition'', ''aggregateRating'', ''author'', ''description''] r1))"

text \<open>\<^verbatim>\<open>_validateEvent(schema, results)\<close>, lines 460-472.\<close>

definition validateEvent ::
  "host \<Rightarrow> schema_record \<Rightarrow> audit_result \<Rightarrow> audit_result outcome" where
  "validateEvent h schema results =
     (let r1 = checkRequiredProperties schema [''name'', ''startDate'', ''location''] results;
          r2 = checkRecommendedProperties schema
                 [''endDate'', ''description'', ''image'', ''performer'', ''offers''] r1
      in Done (case map_of (properties schema) ''startDate'' of
                 None \<Rightarrow> r2
               | Some d \<Rightarrow>
                   if truthy d \<and> \<not> Date_valid h d
                   then add_error ''Invalid startDate format - use ISO 8601'' r2
                   else r2))"

text \<open>\<^verbatim>\<open>_validatePerson(schema, results)\<close>, lines 478-484.\<close>

definition validatePerson :: "schema_record \<Rightarrow> audit_result \<Rightarrow> audit_result outcome" where
  "validatePerson schema results =
     (let r1 = checkRequiredProperties schema [''name''] results
      in Done (checkRecommendedProperties schema
                 [''image'', ''jobTitle'', ''worksFor'', ''sameAs'', ''url''] r1))"

text \<open>\<^verbatim>\<open>_validateWebSite(schema, results)\<close>, lines 490-504.\<close>

definition validateWebSite :: "schema_record \<Rightarrow> audit_result \<Rightarrow> audit_result outcome" where
  "validateWebSite schema results =
     (let r1 = checkRequiredProperties schema [''name'', ''url''] results;
          r2 = checkRecommendedProperties schema [''potentialAction'', ''publisher''] r1
      in Done (if \<not> has_prop schema ''potentialAction''
               then add_warning
                      ''WebSite schema missing SearchAction - add for sitelinks searchbox'' r2
               else r2))"

text \<open>\<^verbatim>\<open>_validateSearchAction(schema, results)\<close>, lines 510-524.\<close>

definition validateSearchAction :: "schema_record \<Rightarrow> audit_result \<Rightarrow> audit_result outcome" where
  "validateSearchAction schema results =
     (let r1 = checkRequiredProperties schema [''target'', ''query-input''] results
      in Done (case map_of (properties schema) ''target'' of
                 Some (JStr target) \<Rightarrow>
                   if target \<noteq> [] \<and> \<not> str_includes target ''{search_term_string}''
                   then add_error
                          ''SearchAction target must include {search_term_string} placeholder'' r1
                   else r1
               | _ \<Rightarrow> r1))"

text \<open>
  The table \<^verbatim>\<open>typeValidators\<close> of lines 264-278, read at the key
  \<^verbatim>\<open>String(schema.type)\<close>: \<open>None\<close> where the lookup gives \<^verbatim>\<open>undefined\<close>, and
  otherwise what \<^verbatim>\<open>validator.call(this, schema, results)\<close> does. The entry of
  \<^verbatim>\<open>LocalBusiness\<close> is \<^verbatim>\<open>this._validateLocalBusiness\<close>, a method the class does not
  define, so that entry is \<^verbatim>\<open>undefined\<close> as well.

  The table is an object literal, so a lookup also finds the names it inherits from
  \<^verbatim>\<open>Object.prototype\<close>. At \<^verbatim>\<open>__proto__\<close> it finds the prototype object, which has no
  method \<^verbatim>\<open>call\<close>: the call throws. \<^verbatim>\<open>__defineGetter__\<close> and \<^verbatim>\<open>__defineSetter__\<close>
  throw because their second argument, \<^verbatim>\<open>results\<close>, is no function. The other
  inherited functions return without touching \<^verbatim>\<open>results\<close>.
\<close>

definition inherited_harmless :: "string list" where
  "inherited_harmless =
     [''constructor'', ''hasOwnProperty'', ''isPrototypeOf'', ''propertyIsEnumerable'',
      ''toString'', ''toLocaleString'', ''valueOf'', ''__lookupGetter__'', ''__lookupSetter__'']"

definition typeValidators ::
  "host \<Rightarrow> string \<Rightarrow> (schema_record \<Rightarrow> audit_result \<Rightarrow> audit_result outcome) option" where
  "typeValidators h t =
     (if t = ''Organization'' then Some validateOrganization
      else if t = ''LocalBusiness'' then None
      else if t = ''Product'' then Some validateProduct
      else if t = ''Article'' then Some (validateArticle h)
      else if t = ''BlogPosting'' then Some (validateArticle h)
      else if t = ''NewsArticle'' then Some (validateArticle h)
      else if t = ''BreadcrumbList'' then Some validateBreadcrumbList
      else if t = ''FAQPage'' then Some validateFAQPage
      else if t = ''Recipe'' then Some validateRecipe
      else if t = ''Event'' then Some (validateEvent h)
      else if t = ''Person'' then Some validatePerson
      else if t = ''WebSite'' then Some validateWebSite
      else if t = ''SearchAction'' then Some validateSearchAction
      else if t = ''__proto__''
        then Some (\<lambda>schema results. Threw ''validator.call is not a function'' results)
      else if t = ''__defineGetter__'' \<or> t = ''__defineSetter__''
        then Some (\<lambda>schema results.
               Threw (''Object.prototype.'' @ t @ '': Expecting function'') results)
      else if List.member inherited_harmless t
        then Some (\<lambda>schema results. Done results)
      else None)"

text \<open>\<^verbatim>\<open>results.schemas.forEach(schema => ...)\<close>, lines 280-285.\<close>

fun schemas_forEach :: "host \<Rightarrow> schema_record list \<Rightarrow> audit_result \<Rightarrow> audit_result outcome" where
  "schemas_forEach h [] results = Done results"
| "schemas_forEach h (schema # rest) results =
     (case typeValidators h (js_to_string (stype schema)) of
        None \<Rightarrow> schemas_forEach h rest results
      | Some validator \<Rightarrow> bind_outcome (validator schema results) (schemas_forEach h rest))"

text \<open>\<^verbatim>\<open>_validateSchemas(results)\<close>, lines 263-286.\<close>

definition validateSchemas :: "host \<Rightarrow> audit_result \<Rightarrow> audit_result outcome" where
  "validateSchemas h results = schemas_forEach h (schemas results) results"

section \<open>StructuredDataParser: recommendations\<close>

text \<open>\<^verbatim>\<open>_detectPageType(url, schemaTypes)\<close>, lines 610-626.\<close>

definition detectPageType :: "string \<Rightarrow> json list \<Rightarrow> string" where
  "detectPageType u schemaTypes =
     (let urlLower = toLowerCase u in
      if endsWith u ''/'' \<or> str_includes urlLower ''/home'' then ''homepage''
      else if str_includes urlLower ''/product'' \<or> str_includes urlLower ''/item'' then ''product''
      else if str_includes urlLower ''/article'' \<or> str_includes urlLower ''/blog'' then ''article''
      else if str_includes urlLower ''/category'' \<or> str_includes urlLower ''/shop'' then ''category''
      else if str_includes urlLower ''/faq'' then ''faq''
      else if str_includes urlLower ''/contact'' \<or> str_includes urlLower ''/location'' then ''local''
      else if str_includes urlLower ''/event'' then ''event''
      else if List.member schemaTypes (JStr ''Product'') then ''product''
      else if list_ex (\<lambda>t. List.member [JStr ''Article'', JStr ''BlogPosting'', JStr ''NewsArticle''] t)
                schemaTypes then ''article''
      else ''general'')"

text \<open>The table \<^verbatim>\<open>recommendations\<close> of lines 565-573 with the default of line 575.\<close>

definition recommended_for :: "string \<Rightarrow> string list" where
  "recommended_for pageType =
     (if pageType = ''product'' then [''Product with offers and reviews'', ''BreadcrumbList'', ''Organization'']
      else if pageType = ''article''
        then [''Article or BlogPosting'', ''BreadcrumbList'', ''Author (Person)'', ''Publisher'']
      else if pageType = ''category'' then [''BreadcrumbList'', ''ItemList'', ''WebPage'']
      else if pageType = ''faq'' then [''FAQPage'', ''BreadcrumbList'', ''Organization'']
      else if pageType = ''local''
        then [''LocalBusiness with address'', ''OpeningHoursSpecification'', ''Review'']
      else if pageType = ''event'' then [''Event with location and dates'', ''Organization'', ''Offers'']
      else [''Organization or LocalBusiness'', ''WebSite with SearchAction'', ''BreadcrumbList''])"

text \<open>
  \<^verbatim>\<open>schemaTypes.some(type => rec.toLowerCase().includes(type.toLowerCase()))\<close>, lines
  578-580. A type that is not a string has no method \<^verbatim>\<open>toLowerCase\<close>: the call throws.
\<close>

fun some_type :: "string \<Rightarrow> json list \<Rightarrow> string + bool" where
  "some_type rec [] = Inr False"
| "some_type rec (JStr t # ts) =
     (if str_includes (toLowerCase rec) (toLowerCase t) then Inr True else some_type rec ts)"
| "some_type rec (v # ts) = Inl ''type.toLowerCase is not a function''"

text \<open>\<^verbatim>\<open>results.recommendations.push(msg)\<close>.\<close>

definition push_recommendation :: "string \<Rightarrow> audit_result \<Rightarrow> audit_result" where
  "push_recommendation msg results =
     results\<lparr> recommendations := recommendations results @ [msg] \<rparr>"

text \<open>\<^verbatim>\<open>recommended.forEach(rec => ...)\<close>, lines 577-585.\<close>

fun recommended_forEach ::
  "string list \<Rightarrow> json list \<Rightarrow> audit_result \<Rightarrow> audit_result outcome" where
  "recommended_forEach [] schemaTypes results = Done results"
| "recommended_forEach (rec # rest) schemaTypes results =
     (case some_type rec schemaTypes of
        Inl msg \<Rightarrow> Threw msg results
      | Inr hasSchema \<Rightarrow>
          recommended_forEach rest schemaTypes
            (if \<not> hasSchema
             then push_recommendation (''Consider adding '' @ rec @ '' schema'') results
             else results))"

text \<open>\<^verbatim>\<open>_analyzeAndRecommend(url, results)\<close>, lines 560-604.\<close>

definition analyzeAndRecommend :: "string \<Rightarrow> audit_result \<Rightarrow> audit_result outcome" where
  "analyzeAndRecommend u results =
     (let schemaTypes = map stype (schemas results);
          pageType = detectPageType u schemaTypes
      in bind_outcome (recommended_forEach (recommended_for pageType) schemaTypes results)
           (\<lambda>r1.
              let r2 = (if length (schemas r1) = 0
                        then push_recommendation
                               ''No structured data found - add appropriate schemas for rich results''
                               r1
                        else r1);
                  r3 = (if length (jsonLd r2) = 0
                        then push_recommendation
                               (''Use JSON-LD format for structured data (Google'' @ [CHR 0x27]
                                @ ''s preferred format)'') r2
                        else r2)
              in Done (r3\<lparr> passed := int (length (schemas r3)) - critical r3 - issue_warnings r3 \<rparr>)))"

section \<open>StructuredDataParser: the score\<close>

text \<open>\<^verbatim>\<open>_calculateScore(results)\<close>, lines 632-652.\<close>

definition calculateScore :: "audit_result \<Rightarrow> audit_result" where
  "calculateScore results =
     (let score0 = (100::int);
          score1 = score0 - int (length (errors results)) * 15;
          score2 = score1 - int (length (warnings results)) * 5;
          score3 = (if length (schemas results) > 0 then score2 + 10 else score2);
          score4 = (if length (jsonLd results) > 0 then score3 + 5 else score3)
      in results\<lparr>score := max 0 (min 100 score4)\<rparr>)"

section \<open>StructuredDataParser: parse\<close>

text \<open>
  The fetched page is the outcome of \<^verbatim>\<open>axios.get\<close> followed by \<^verbatim>\<open>cheerio.load\<close>:
  \<open>Inl\<close> the message of the error the fetch fails with, \<open>Inr\<close> the document.
  \<open>now\<close> is what \<^verbatim>\<open>new Date().toISOString()\<close> returns at the call.
\<close>

definition init_results :: "string \<Rightarrow> string \<Rightarrow> audit_result" where
  "init_results u now =
     \<lparr> url = u, timestamp = now, status = ''completed'', error = None,
       jsonLd = [], microdata = [], rdfa = [], schemas = [],
       errors = [], warnings = [], recommendations = [],
       score = 100, critical = 0, issue_warnings = 0, passed = 0 \<rparr>"

text \<open>The statements of the try block after the fetch, lines 58-72.\<close>

definition parse_try :: "host \<Rightarrow> string \<Rightarrow> node \<Rightarrow> audit_result \<Rightarrow> audit_result outcome" where
  "parse_try h u doc results =
     bind_outcome (parseMicrodata doc (parseJsonLd h doc results))
       (\<lambda>r1. bind_outcome (parseRDFa doc r1)
         (\<lambda>r2. bind_outcome (validateSchemas h r2)
           (\<lambda>r3. bind_outcome (analyzeAndRecommend u r3)
             (\<lambda>r4. Done (calculateScore r4)))))"

text \<open>The catch block, lines 74-78.\<close>

definition parse_catch :: "string \<Rightarrow> audit_result \<Rightarrow> audit_result" where
  "parse_catch msg results =
     results\<lparr> status := ''error'', error := Some msg,
              errors := errors results @ [''Failed to fetch URL: '' @ msg] \<rparr>"

text \<open>\<^verbatim>\<open>parse(url)\<close>, lines 25-81.\<close>

definition parse :: "host \<Rightarrow> string \<Rightarrow> string \<Rightarrow> string + node \<Rightarrow> audit_result" where
  "parse h now u page =
     (case page of
        Inl msg \<Rightarrow> parse_catch msg (init_results u now)
      | Inr doc \<Rightarrow>
          (case parse_try h u doc (init_results u now) of
             Done results \<Rightarrow> results
           | Threw msg results \<Rightarrow> parse_catch msg results))"

section \<open>MetaExtractor: the result record\<close>

record measured =
  content :: string
  content_length :: nat

record image_info =
  img_src :: string
  img_alt :: string
  img_title :: string
  img_width :: string
  img_height :: string

text \<open>
  The object \<^verbatim>\<open>results\<close> of \<^verbatim>\<open>extract\<close>. \<open>meta_title\<close> and \<open>meta_description\<close>
  are \<^verbatim>\<open>results.meta.title\<close> and \<^verbatim>\<open>results.meta.description\<close> (\<open>None\<close> for
  \<^verbatim>\<open>null\<close>); \<open>meta_tags\<close> holds the other keys of \<^verbatim>\<open>results.meta\<close>;
  \<open>externalLinksNoRel\<close> is the counter that \<^verbatim>\<open>_extractLinks\<close> keeps as a property of
  the array \<^verbatim>\<open>results.warnings\<close> (\<open>None\<close> while the property does not exist).
\<close>

record meta_result =
  m_url :: string
  m_timestamp :: string
  m_status :: string
  m_error :: "string option"
  meta_title :: "measured option"
  meta_description :: "measured option"
  meta_tags :: "(string \<times> string option) list"
  h1 :: "string list"
  h2 :: "string list"
  h3 :: "string list"
  h4 :: "string list"
  h5 :: "string list"
  h6 :: "string list"
  images_total :: nat
  images_withAlt :: nat
  images_withoutAlt :: nat
  images :: "image_info list"
  links_internal :: nat
  links_external :: nat
  links_total :: nat
  issues :: "string list"
  m_warnings :: "string list"
  externalLinksNoRel :: "nat option"
  m_recommendations :: "string list"
  m_score :: int

definition init_meta :: "string \<Rightarrow> string \<Rightarrow> meta_result" where
  "init_meta u now =
     \<lparr> m_url = u, m_timestamp = now, m_status = ''completed'', m_error = None,
       meta_title = None, meta_description = None,
       meta_tags = [(''keywords'', None), (''robots'', None), (''canonical'', None),
                    (''viewport'', None), (''charset'', None),
                    (''og:title'', None), (''og:description'', None), (''og:image'', None),
                    (''og:url'', None), (''og:type'', None),
                    (''twitter:card'', None), (''twitter:title'', None),
                    (''twitter:description'', None), (''twitter:image'', None)],
       h1 = [], h2 = [], h3 = [], h4 = [], h5 = [], h6 = [],
       images_total = 0, images_withAlt = 0, images_withoutAlt = 0, images = [],
       links_internal = 0, links_external = 0, links_total = 0,
       issues = [], m_warnings = [], externalLinksNoRel = None,
       m_recommendations = [], m_score = 100 \<rparr>"

text \<open>\<^verbatim>\<open>results.meta[key] = v\<close> and \<^verbatim>\<open>results.meta[key]\<close> read as a condition.\<close>

definition meta_set :: "string \<Rightarrow> string \<Rightarrow> meta_result \<Rightarrow> meta_result" where
  "meta_set key v results =
     results\<lparr> meta_tags :=
       (if map_of (meta_tags results) key = None then meta_tags results @ [(key, Some v)]
        else map (\<lambda>kv. if fst kv = key then (key, Some v) else kv) (meta_tags results)) \<rparr>"

definition meta_truthy :: "meta_result \<Rightarrow> string \<Rightarrow> bool" where
  "meta_truthy results key =
     (case map_of (meta_tags results) key of
        Some (Some v) \<Rightarrow> v \<noteq> []
      | _ \<Rightarrow> False)"

definition push_issue :: "string \<Rightarrow> meta_result \<Rightarrow> meta_result" where
  "push_issue msg results = results\<lparr> issues := issues results @ [msg] \<rparr>"

definition push_warning :: "string \<Rightarrow> meta_result \<Rightarrow> meta_result" where
  "push_warning msg results = results\<lparr> m_warnings := m_warnings results @ [msg] \<rparr>"

definition deduct :: "int \<Rightarrow> meta_result \<Rightarrow> meta_result" where
  "deduct k results = results\<lparr> m_score := m_score results - k \<rparr>"

definition select :: "(node \<Rightarrow> bool) \<Rightarrow> node \<Rightarrow> node list" where
  "select P doc = filter P (elements doc)"

section \<open>MetaExtractor: title and meta tags\<close>

text \<open>Lines 856-859: \<^verbatim>\<open>results.meta.title = { content: title, length: title.length }\<close>.\<close>

definition set_title :: "string \<Rightarrow> meta_result \<Rightarrow> meta_result" where
  "set_title title results =
     results\<lparr> meta_title := Some \<lparr> content = title, content_length = length title \<rparr> \<rparr>"

text \<open>\<^verbatim>\<open>_extractTitle($, results)\<close>, lines 849-877.\<close>

definition extractTitle :: "node \<Rightarrow> meta_result \<Rightarrow> meta_result" where
  "extractTitle doc results =
     (let title = trim (concat (map text_of (select (has_tag ''title'') doc))) in
      if title = [] then deduct 20 (push_issue ''Missing page title'' results)
      else
        (let r1 = set_title title results;
             r2 = (if length title < 30
                   then deduct 5 (push_warning
                          (''Title too short ('' @ show_nat (length title)
                           @ '' chars) - aim for 30-60 characters'') r1)
                   else if length title > 60
                   then deduct 5 (push_warning
                          (''Title too long ('' @ show_nat (length title)
                           @ '' chars) - keep under 60 characters'') r1)
                   else r1)
         in if List.member [''home'', ''index'', ''untitled'', ''welcome''] (toLowerCase title)
            then deduct 10 (push_issue
                   ''Generic page title detected - make it unique and descriptive'' r2)
            else r2))"

definition meta_named :: "string \<Rightarrow> node \<Rightarrow> node list" where
  "meta_named name doc = select (\<lambda>e. has_tag ''meta'' e \<and> attr_is ''name'' name e) doc"

text \<open>Lines 890-893: \<^verbatim>\<open>results.meta.description\<close> gets the trimmed text and its length.\<close>

definition set_description :: "string \<Rightarrow> meta_result \<Rightarrow> meta_result" where
  "set_description description results =
     results\<lparr> meta_description :=
       Some \<lparr> content = trim description, content_length = length (trim description) \<rparr> \<rparr>"

text \<open>Lines 884-903 of \<^verbatim>\<open>_extractMetaTags\<close>: the description.\<close>

definition extractDescription :: "node \<Rightarrow> meta_result \<Rightarrow> meta_result" where
  "extractDescription doc results =
     (let description = or_str (first_attr (meta_named ''description'' doc) ''content'') [] in
      if description = [] then deduct 15 (push_issue ''Missing meta description'' results)
      else
        (let r1 = set_description description results
         in if length description < 120
            then deduct 5 (push_warning
                   (''Description too short ('' @ show_nat (length description)
                    @ '' chars) - aim for 120-160 characters'') r1)
            else if length description > 160
            then deduct 5 (push_warning
                   (''Description too long ('' @ show_nat (length description)
                    @ '' chars) - keep under 160 characters'') r1)
            else r1))"

text \<open>Lines 905-923: keywords and robots.\<close>

definition extractKeywords :: "node \<Rightarrow> meta_result \<Rightarrow> meta_result" where
  "extractKeywords doc results =
     (let keywords = first_attr (meta_named ''keywords'' doc) ''content'' in
      if truthy_str keywords then meta_set ''keywords'' (trim (or_str keywords [])) results
      else results)"

definition extractRobots :: "node \<Rightarrow> meta_result \<Rightarrow> meta_result" where
  "extractRobots doc results =
     (let robots = or_str (first_attr (meta_named ''robots'' doc) ''content'') [] in
      if robots \<noteq> [] then
        (let r1 = meta_set ''robots'' (trim robots) results;
             r2 = (if str_includes robots ''noindex''
                   then push_warning ''Page is set to noindex - ensure this is intentional'' r1
                   else r1)
         in if str_includes robots ''nofollow''
            then push_warning ''Page is set to nofollow - this prevents link equity flow'' r2
            else r2)
      else results)"

text \<open>Lines 925-940: the viewport.\<close>

definition extractViewport :: "node \<Rightarrow> meta_result \<Rightarrow> meta_result" where
  "extractViewport doc results =
     (let viewport = or_str (first_attr (meta_named ''viewport'' doc) ''content'') [] in
      if viewport = []
      then deduct 10 (push_issue
             ''Missing viewport meta tag - critical for mobile optimization'' results)
      else
        (let r1 = meta_set ''viewport'' (trim viewport) results;
             r2 = (if \<not> str_includes viewport ''width=device-width''
                   then push_warning ''Viewport should include width=device-width'' r1
                   else r1)
         in if \<not> str_includes viewport ''initial-scale=1''
            then push_warning ''Viewport should include initial-scale=1'' r2
            else r2))"

text \<open>Lines 942-947: the charset.\<close>

definition extractCharset :: "node \<Rightarrow> meta_result \<Rightarrow> meta_result" where
  "extractCharset doc results =
     (let first = first_attr (select (\<lambda>e. has_tag ''meta'' e \<and> has_attr ''charset'' e) doc)
                    ''charset'';
          second = first_attr
                     (select (\<lambda>e. has_tag ''meta'' e \<and> attr_is_ci ''http-equiv'' ''Content-Type'' e) doc)
                     ''content'';
          charset = (if truthy_str first then first else second)
      in if truthy_str charset then meta_set ''charset'' (or_str charset []) results
         else results)"

text \<open>The loops of lines 964-970 and 997-1003: the flag and the stored tags.\<close>

fun tags_forEach ::
  "string \<Rightarrow> string \<Rightarrow> string list \<Rightarrow> node \<Rightarrow> bool \<times> meta_result \<Rightarrow> bool \<times> meta_result" where
  "tags_forEach attrName prefix [] doc acc = acc"
| "tags_forEach attrName prefix (t # ts) doc acc =
     (let c = or_str (first_attr
                  (select (\<lambda>e. has_tag ''meta'' e \<and> attr_is attrName (prefix @ t) e) doc)
                  ''content'') []
      in tags_forEach attrName prefix ts doc
           (if c \<noteq> [] then (True, meta_set (prefix @ t) (trim c) (snd acc)) else acc))"

text \<open>\<^verbatim>\<open>_extractOpenGraphTags($, results)\<close>, lines 960-987.\<close>

definition extractOpenGraphTags :: "node \<Rightarrow> meta_result \<Rightarrow> meta_result" where
  "extractOpenGraphTags doc results =
     (let found = tags_forEach ''property'' ''og:''
                    [''title'', ''description'', ''image'', ''url'', ''type'', ''site_name'']
                    doc (False, results);
          r1 = snd found
      in if \<not> fst found
         then deduct 5 (push_warning
                ''No Open Graph tags found - consider adding for better social sharing'' r1)
         else
           (let r2 = (if \<not> meta_truthy r1 ''og:title''
                      then push_warning ''Missing og:title tag'' r1 else r1);
                r3 = (if \<not> meta_truthy r2 ''og:description''
                      then push_warning ''Missing og:description tag'' r2 else r2)
            in if \<not> meta_truthy r3 ''og:image''
               then push_warning ''Missing og:image tag - important for social sharing'' r3
               else r3))"

text \<open>\<^verbatim>\<open>_extractTwitterCardTags($, results)\<close>, lines 993-1009.\<close>

definition extractTwitterCardTags :: "node \<Rightarrow> meta_result \<Rightarrow> meta_result" where
  "extractTwitterCardTags doc results =
     (let found = tags_forEach ''name'' ''twitter:''
                    [''card'', ''title'', ''description'', ''image'', ''site'', ''creator'']
                    doc (False, results);
          r1 = snd found
      in if \<not> fst found
         then deduct 3 (push_warning
                ''No Twitter Card tags found - consider adding for Twitter sharing'' r1)
         else r1)"

text \<open>\<^verbatim>\<open>_extractMetaTags($, results)\<close>, lines 883-954.\<close>

definition extractMetaTags :: "node \<Rightarrow> meta_result \<Rightarrow> meta_result" where
  "extractMetaTags doc results =
     extractTwitterCardTags doc
       (extractOpenGraphTags doc
         (extractCharset doc
           (extractViewport doc
             (extractRobots doc
               (extractKeywords doc
                 (extractDescription doc results))))))"

text \<open>\<^verbatim>\<open>_extractCanonical($, results)\<close>, lines 1015-1032.\<close>

definition extractCanonical :: "host \<Rightarrow> node \<Rightarrow> meta_result \<Rightarrow> meta_result" where
  "extractCanonical h doc results =
     (let canonical = or_str (first_attr
                         (select (\<lambda>e. has_tag ''link'' e \<and> attr_is_ci ''rel'' ''canonical'' e) doc)
                         ''href'') []
      in if canonical = []
         then deduct 5 (push_warning
                ''No canonical URL found - consider adding to prevent duplicate content issues''
                results)
         else
           (let r1 = meta_set ''canonical'' (trim canonical) results
            in if isl (URL_parse h canonical)
               then deduct 5 (push_issue ''Invalid canonical URL format'' r1)
               else r1))"

section \<open>MetaExtractor: headings, images and links\<close>

text \<open>The inner loop of lines 1042-1047 for one heading tag.\<close>

definition heading_texts :: "string \<Rightarrow> node \<Rightarrow> string list" where
  "heading_texts t doc = filter (\<lambda>s. s \<noteq> []) (map (\<lambda>e. trim (text_of e)) (select (has_tag t) doc))"

text \<open>The loop over the six heading tags, lines 1039-1048.\<close>

definition push_headings :: "node \<Rightarrow> meta_result \<Rightarrow> meta_result" where
  "push_headings doc results =
     results\<lparr> h1 := h1 results @ heading_texts ''h1'' doc,
              h2 := h2 results @ heading_texts ''h2'' doc,
              h3 := h3 results @ heading_texts ''h3'' doc,
              h4 := h4 results @ heading_texts ''h4'' doc,
              h5 := h5 results @ heading_texts ''h5'' doc,
              h6 := h6 results @ heading_texts ''h6'' doc \<rparr>"

text \<open>\<^verbatim>\<open>_extractHeadings($, results)\<close>, lines 1038-1064.\<close>

definition extractHeadings :: "node \<Rightarrow> meta_result \<Rightarrow> meta_result" where
  "extractHeadings doc results =
     (let r1 = push_headings doc results;
          r2 = (if length (h1 r1) = 0
                then deduct 10 (push_issue ''No H1 tag found - add exactly one H1 tag'' r1)
                else if length (h1 r1) > 1
                then deduct 5 (push_warning
                       (''Multiple H1 tags found ('' @ show_nat (length (h1 r1))
                        @ '') - use only one H1 per page'') r1)
                else r1)
      in if length (h3 r2) > 0 \<and> length (h2 r2) = 0
         then deduct 3 (push_warning
                ''H3 tags found without H2 - maintain proper heading hierarchy'' r2)
         else r2)"

text \<open>The body of \<^verbatim>\<open>$('img').each\<close> for one element, lines 1072-1094.\<close>

definition image_step :: "meta_result \<Rightarrow> node \<Rightarrow> meta_result" where
  "image_step results elem =
     (let src = attr elem ''src''; alt = attr elem ''alt'' in
      if truthy_str src then
        (let imageInfo = \<lparr> img_src = or_str src [],
                            img_alt = or_str alt [],
                            img_title = or_str (attr elem ''title'') [],
                            img_width = or_str (attr elem ''width'') [],
                            img_height = or_str (attr elem ''height'') [] \<rparr>;
             r1 = results\<lparr> images_total := images_total results + 1,
                            images := images results @ [imageInfo] \<rparr>
         in if truthy_str alt \<and> trim (or_str alt []) \<noteq> []
            then r1\<lparr> images_withAlt := images_withAlt r1 + 1 \<rparr>
            else r1\<lparr> images_withoutAlt := images_withoutAlt r1 + 1 \<rparr>)
      else results)"

text \<open>\<^verbatim>\<open>_extractImages($, results)\<close>, lines 1070-1109.\<close>

definition extractImages :: "node \<Rightarrow> meta_result \<Rightarrow> meta_result" where
  "extractImages doc results =
     (let r1 = foldl image_step results (select (has_tag ''img'') doc);
          r2 = (if images_withoutAlt r1 > 0
                then deduct (min 15 (int (images_withoutAlt r1) * 2))
                       (push_issue (show_nat (images_withoutAlt r1)
                          @ '' images missing alt text - add descriptive alt text for accessibility and SEO'')
                          r1)
                else r1);
          missingDimensions =
            length (filter (\<lambda>img. img_width img = [] \<or> img_height img = []) (images r2))
      in if missingDimensions > 0
         then deduct (min 5 (int missingDimensions))
                (push_warning (show_nat missingDimensions
                   @ '' images missing width/height attributes - add to prevent layout shift'') r2)
         else r2)"

text \<open>
  The body of \<^verbatim>\<open>$('a[href]').each\<close> for one anchor, lines 1117-1138. \<open>pageHost\<close> is
  \<^verbatim>\<open>pageUrl.hostname\<close> and \<open>u\<close> the page's URL, against which the href is resolved.
\<close>

definition link_step :: "host \<Rightarrow> string \<Rightarrow> string \<Rightarrow> meta_result \<Rightarrow> node \<Rightarrow> meta_result" where
  "link_step h u pageHost results elem =
     (let href = or_str (attr elem ''href'') [] in
      if href = [] \<or> startsWith href ''#'' then results
      else
        (let r1 = results\<lparr> links_total := links_total results + 1 \<rparr> in
         case URL_resolve h href u of
           Inl msg \<Rightarrow> r1
         | Inr hostname \<Rightarrow>
             if hostname = pageHost
             then r1\<lparr> links_internal := links_internal r1 + 1 \<rparr>
             else
               (let r2 = r1\<lparr> links_external := links_external r1 + 1 \<rparr>;
                    rel = or_str (attr elem ''rel'') []
                in if \<not> str_includes rel ''nofollow'' \<and> \<not> str_includes rel ''noopener''
                   then r2\<lparr> externalLinksNoRel :=
                            Some ((case externalLinksNoRel r2 of None \<Rightarrow> 0 | Some n \<Rightarrow> n) + 1) \<rparr>
                   else r2)))"

text \<open>\<^verbatim>\<open>delete results.warnings.externalLinksNoRel\<close>, line 1143.\<close>

definition delete_counter :: "meta_result \<Rightarrow> meta_result" where
  "delete_counter results = results\<lparr> externalLinksNoRel := None \<rparr>"

text \<open>\<^verbatim>\<open>_extractLinks($, pageUrl, results)\<close>, lines 1115-1145; a counter that does not
  exist compares as \<^verbatim>\<open>undefined > 0\<close>, which is false.\<close>

definition extractLinks :: "host \<Rightarrow> string \<Rightarrow> string \<Rightarrow> node \<Rightarrow> meta_result \<Rightarrow> meta_result" where
  "extractLinks h u pageHost doc results =
     (let r1 = foldl (link_step h u pageHost) results
                 (select (\<lambda>e. has_tag ''a'' e \<and> has_attr ''href'' e) doc);
          n = (case externalLinksNoRel r1 of None \<Rightarrow> 0 | Some k \<Rightarrow> k)
      in if n > 0
         then delete_counter
                (push_warning (show_nat n @ '' external links missing rel='' @ [CHR 0x22]
                   @ ''nofollow'' @ [CHR 0x22] @ '' or rel='' @ [CHR 0x22] @ ''noopener''
                   @ [CHR 0x22]) r1)
         else r1)"

section \<open>MetaExtractor: recommendations and extract\<close>

text \<open>\<^verbatim>\<open>_analyzeResults(results)\<close>, lines 1151-1188.\<close>

definition analyzeResults :: "meta_result \<Rightarrow> meta_result" where
  "analyzeResults results =
     results\<lparr> m_recommendations :=
       (if meta_title results = None
        then [''Add a unique, descriptive page title between 30-60 characters''] else [])
       @ (if meta_description results = None
          then [''Add a compelling meta description between 120-160 characters''] else [])
       @ (if \<not> meta_truthy results ''viewport''
          then [''Add viewport meta tag: <meta name='' @ [CHR 0x22] @ ''viewport'' @ [CHR 0x22]
                @ '' content='' @ [CHR 0x22] @ ''width=device-width, initial-scale=1''
                @ [CHR 0x22] @ ''>'']
          else [])
       @ (if \<not> meta_truthy results ''og:image''
          then [''Add Open Graph image for better social media sharing''] else [])
       @ (if length (h1 results) = 0
          then [''Add an H1 tag that includes your target keywords''] else [])
       @ (if images_withoutAlt results > 0
          then [''Add descriptive alt text to all images for accessibility and SEO''] else [])
       @ [''Consider adding structured data (Schema.org) for rich snippets''] \<rparr>"

text \<open>The catch block of \<^verbatim>\<open>extract\<close>, lines 836-840.\<close>

definition extract_catch :: "string \<Rightarrow> meta_result \<Rightarrow> meta_result" where
  "extract_catch msg results =
     results\<lparr> m_status := ''error'', m_error := Some msg,
              issues := issues results @ [''Failed to analyze URL: '' @ msg] \<rparr>"

text \<open>The statements of the try block after \<^verbatim>\<open>new URL(url)\<close>, lines 815-834.\<close>

definition extract_steps :: "host \<Rightarrow> string \<Rightarrow> string \<Rightarrow> node \<Rightarrow> meta_result \<Rightarrow> meta_result" where
  "extract_steps h u pageHost doc results =
     analyzeResults
       (extractLinks h u pageHost doc
         (extractImages doc
           (extractHeadings doc
             (extractCanonical h doc
               (extractMetaTags doc
                 (extractTitle doc results))))))"

text \<open>\<^verbatim>\<open>extract(url)\<close> of the class \<^verbatim>\<open>MetaExtractor\<close>, lines 754-843; the page
  and \<open>now\<close> as for \<open>parse\<close>.\<close>

definition extractMeta :: "host \<Rightarrow> string \<Rightarrow> string \<Rightarrow> string + node \<Rightarrow> meta_result" where
  "extractMeta h now u page =
     (case page of
        Inl msg \<Rightarrow> extract_catch msg (init_meta u now)
      | Inr doc \<Rightarrow>
          (case URL_parse h u of
             Inl msg \<Rightarrow> extract_catch msg (init_meta u now)
           | Inr pageHost \<Rightarrow> extract_steps h u pageHost doc (init_meta u now)))"

section \<open>MetaExtractor: the CSV report\<close>

text \<open>The argument of \<^verbatim>\<open>generateCSV\<close> is one result or an array of results.\<close>

datatype csv_arg = Single meta_result | Many "meta_result list"

fun csv_data :: "csv_arg \<Rightarrow> meta_result list" where
  "csv_data (Single r) = [r]"
| "csv_data (Many rs) = rs"

definition csv_header :: "string list" where
  "csv_header = [''URL'', ''Title'', ''Title Length'', ''Description'', ''Description Length'',
                 ''H1 Count'', ''Images Total'', ''Images Without Alt'', ''Score'', ''Issues'',
                 ''Warnings'']"

text \<open>The row of one result, lines 1222-1234, each cell as the string the template
  of line 1237 turns it into (the numbers of a result are small enough for
  \<^verbatim>\<open>String\<close> to print all their digits).\<close>

definition csv_row :: "meta_result \<Rightarrow> string list" where
  "csv_row result =
     [m_url result,
      (case meta_title result of None \<Rightarrow> [] | Some t \<Rightarrow> content t),
      (case meta_title result of None \<Rightarrow> ''0'' | Some t \<Rightarrow> show_nat (content_length t)),
      (case meta_description result of None \<Rightarrow> [] | Some d \<Rightarrow> content d),
      (case meta_description result of None \<Rightarrow> ''0'' | Some d \<Rightarrow> show_nat (content_length d)),
      show_nat (length (h1 result)),
      show_nat (images_total result),
      show_nat (images_withoutAlt result),
      show_int (m_score result),
      show_nat (length (issues result)),
      show_nat (length (m_warnings result))]"

text \<open>The template \<^verbatim>\<open>`"${cell}"`\<close> of line 1237.\<close>

definition csv_cell :: "string \<Rightarrow> string" where
  "csv_cell cell = [CHR 0x22] @ cell @ [CHR 0x22]"

text \<open>\<^verbatim>\<open>generateCSV(results)\<close>, lines 1215-1238.\<close>

definition generateCSV :: "csv_arg \<Rightarrow> string" where
  "generateCSV results =
     join [CHR 0x0A]
       (map (\<lambda>row. join '','' (map csv_cell row)) (csv_header # map csv_row (csv_data results)))"

section \<open>Example inputs\<close>

text \<open>
  A finite excerpt of the runtime for the concrete inputs below: what
  \<^verbatim>\<open>JSON.parse\<close>, \<^verbatim>\<open>new Date\<close> and \<^verbatim>\<open>new URL\<close> do on the strings that occur
  in the examples.
\<close>

definition example_host :: host where
  \<open>example_host =
     \<lparr> JSON_parse = (\<lambda>s. if s = ''{"@type":"Product","name":"Widget"}''
                          then Inr (JObj [(''@type'', JStr ''Product''), (''name'', JStr ''Widget'')])
                          else Inl ''Unexpected token b in JSON at position 1''),
       Date_valid = (\<lambda>v. v = JStr ''2024-01-15''),
       URL_parse = (\<lambda>s. if s = ''https://example.com'' then Inr ''example.com''
                         else Inl ''Invalid URL''),
       URL_resolve = (\<lambda>href base.
                        if href = ''/internal'' then Inr ''example.com''
                        else if href = ''https://external.com'' then Inr ''external.com''
                        else Inl ''Invalid URL'') \<rparr>\<close>

text \<open>A Microdata item with one property:
  \<^verbatim>\<open><div itemscope itemtype="http://schema.org/Product"><span itemprop="name">Widget</span></div>\<close>\<close>

definition example_prop :: node where
  "example_prop = Element ''span'' [(''itemprop'', ''name'')] [TextNode ''Widget'']"

definition example_item :: node where
  "example_item =
     Element ''div'' [(''itemscope'', []), (''itemtype'', ''http://schema.org/Product'')]
       [example_prop]"

definition example_item_schema :: "(string \<times> json) list" where
  "example_item_schema =
     [(''@type'', JStr ''Product''), (''@context'', JStr ''http://schema.org''),
      (''_format'', JStr ''Microdata'')]"

text \<open>A page with two JSON-LD blocks, the first malformed, the second valid.\<close>

definition example_jsonld_page :: node where
  \<open>example_jsonld_page =
     Element ''html'' []
       [Element ''head'' []
          [Element ''script'' [(''type'', ''application/ld+json'')] [TextNode ''{bad''],
           Element ''script'' [(''type'', ''application/ld+json'')]
             [TextNode ''{"@type":"Product","name":"Widget"}'']]]\<close>

text \<open>The Product record of \<^verbatim>\<open>{"@type":"Product","name":"Widget"}\<close>.\<close>

definition product_only_name :: schema_record where
  "product_only_name =
     \<lparr> format = ''JSON-LD'', stype = JStr ''Product'',
       properties = [(''name'', JStr ''Widget'')], rec_errors = [], rec_warnings = [] \<rparr>"

text \<open>The Product record of \<^verbatim>\<open>{"@type":"Product","name":""}\<close>.\<close>

definition product_empty_name :: schema_record where
  "product_empty_name =
     \<lparr> format = ''JSON-LD'', stype = JStr ''Product'',
       properties = [(''name'', JStr [])], rec_errors = [], rec_warnings = [] \<rparr>"

text \<open>The result that the repository's test \<^verbatim>\<open>should escape quotes in CSV\<close> passes
  to \<^verbatim>\<open>generateCSV\<close>.\<close>

definition quotes_result :: meta_result where
  \<open>quotes_result =
     (init_meta ''https://example.com'' [])
       \<lparr> meta_title := Some \<lparr> content = ''Title with "quotes"'', content_length = 18 \<rparr>,
         meta_description := Some \<lparr> content = ''Description'', content_length = 11 \<rparr> \<rparr>\<close>

section \<open>Notions used in the statements\<close>

text \<open>The image elements that \<^verbatim>\<open>_extractImages\<close> counts are those with a non-empty
  \<^verbatim>\<open>src\<close>; an \<^verbatim>\<open>alt\<close> text is missing when the attribute is absent, empty or
  consists of white space only.\<close>

definition counted_image :: "node \<Rightarrow> bool" where
  "counted_image e = truthy_str (attr e ''src'')"

definition alt_missing :: "node \<Rightarrow> bool" where
  "alt_missing e = (case attr e ''alt'' of None \<Rightarrow> True | Some a \<Rightarrow> list_all is_space a)"

definition img_elements :: "node \<Rightarrow> node list" where
  "img_elements doc = select (has_tag ''img'') doc"

text \<open>The anchors that \<^verbatim>\<open>_extractLinks\<close> counts are those whose \<^verbatim>\<open>href\<close> is neither
  empty nor a fragment; such an anchor is malformed when its \<^verbatim>\<open>href\<close> does not
  resolve against the page's URL.\<close>

definition anchors :: "node \<Rightarrow> node list" where
  "anchors doc = select (\<lambda>e. has_tag ''a'' e \<and> has_attr ''href'' e) doc"

definition counted_link :: "node \<Rightarrow> bool" where
  "counted_link e =
     (or_str (attr e ''href'') [] \<noteq> [] \<and> \<not> startsWith (or_str (attr e ''href'') []) ''#'')"

definition malformed_link :: "host \<Rightarrow> string \<Rightarrow> node \<Rightarrow> bool" where
  "malformed_link h u e = isl (URL_resolve h (or_str (attr e ''href'') []) u)"

text \<open>The groups of fields that only one step of \<^verbatim>\<open>extract\<close> writes.\<close>

definition image_fields :: "meta_result \<Rightarrow> nat \<times> nat \<times> nat \<times> image_info list" where
  "image_fields r = (images_total r, images_withAlt r, images_withoutAlt r, images r)"

definition link_fields :: "meta_result \<Rightarrow> nat \<times> nat \<times> nat" where
  "link_fields r = (links_total r, links_internal r, links_external r)"

text \<open>A page with three links, one internal, one external and one whose \<^verbatim>\<open>href\<close> is
  no URL, and three images, two of them with an \<^verbatim>\<open>alt\<close> text and one whose \<^verbatim>\<open>alt\<close>
  is a no-break space followed by a space (and one \<^verbatim>\<open>img\<close> without \<^verbatim>\<open>src\<close>).\<close>

definition example_page :: node where
  "example_page =
     Element ''html'' []
       [Element ''head'' [] [Element ''title'' [] [TextNode ''Test'']],
        Element ''body'' []
          [Element ''img'' [(''src'', ''test1.jpg''), (''alt'', ''Test image 1'')] [],
           Element ''img'' [(''src'', ''test2.jpg''), (''alt'', ''Test image 2'')] [],
           Element ''img'' [(''src'', ''test3.jpg''), (''alt'', [CHR 0xA0, CHR '' ''])] [],
           Element ''img'' [(''alt'', ''no source'')] [],
           Element ''a'' [(''href'', ''/internal'')] [TextNode ''Internal Link''],
           Element ''a'' [(''href'', ''https://external.com'')] [TextNode ''External Link''],
           Element ''a'' [(''href'', ''http://['')] [TextNode ''Broken Link'']]]"

text \<open>The four lists of schema records of a result.\<close>

definition record_lists ::
  "audit_result \<Rightarrow> schema_record list \<times> schema_record list \<times> schema_record list \<times> schema_record list" where
  "record_lists r = (schemas r, jsonLd r, microdata r, rdfa r)"

text \<open>A document has an annotated item when some element carries \<^verbatim>\<open>itemscope\<close> with a
  non-empty \<^verbatim>\<open>itemtype\<close>, or a non-empty \<^verbatim>\<open>typeof\<close>.\<close>

definition has_annotated_item :: "node \<Rightarrow> bool" where
  "has_annotated_item doc =
     (list_ex (\<lambda>e. has_attr ''itemscope'' e \<and> truthy_str (attr e ''itemtype'')) (elements doc)
      \<or> list_ex (\<lambda>e. truthy_str (attr e ''typeof'')) (elements doc))"

text \<open>A page on which every deduction of the meta extractor applies: no title, no meta
  tags, no canonical link, no \<^verbatim>\<open>h1\<close>, an \<^verbatim>\<open>h3\<close> without \<^verbatim>\<open>h2\<close>, and eight images
  without \<^verbatim>\<open>alt\<close>, \<^verbatim>\<open>width\<close> and \<^verbatim>\<open>height\<close>.\<close>

definition bare_image :: node where
  "bare_image = Element ''img'' [(''src'', ''a.png'')] []"

definition worst_page :: node where
  "worst_page =
     Element ''html'' []
       [Element ''head'' [] [],
        Element ''body'' []
          [Element ''h3'' [] [TextNode ''Details''],
           bare_image, bare_image, bare_image, bare_image,
           bare_image, bare_image, bare_image, bare_image]]"

section \<open>Theorems: the structured-data score\<close>

text \<open>
  C3: the structured-data score is 100 minus 15 per error string minus 5 per warning
  string, plus 10 if at least one schema was found, plus a further 5 if at least one
  JSON-LD record exists, clamped to the interval from 0 to 100; so it always lies in
  that interval.
\<close>

theorem C3_calculateScore_formula:
  "score (calculateScore results) =
     max 0 (min 100
       (100 - 15 * int (length (errors results)) - 5 * int (length (warnings results))
        + (if schemas results \<noteq> [] then 10 else 0)
        + (if jsonLd results \<noteq> [] then 5 else 0)))
   \<and> 0 \<le> score (calculateScore results)
   \<and> score (calculateScore results) \<le> 100"
  by (auto simp: calculateScore_def Let_def max_def min_def)


text \<open>The score of a result with two errors, one warning and no schema: 100 - 30 - 5.\<close>

theorem C3_calculateScore_witness:
  "score (calculateScore ((init_results ''https://example.com'' [])
            \<lparr> errors := [''e1'', ''e2''], warnings := [''w1''] \<rparr>)) = 65"
  using C3_calculateScore_formula [of "(init_results ''https://example.com'' [])
            \<lparr> errors := [''e1'', ''e2''], warnings := [''w1''] \<rparr>"]
  by (simp add: init_results_def)

section \<open>Theorems: Microdata properties\<close>

lemma js_bool_gt_never: "js_bool_gt (js_not_num n) 1 = False"
  by (simp add: js_bool_gt_def js_not_num_def)

lemma microdata_each_unchanged: "microdata_each ps schema = Inr schema"
  by (induction ps arbitrary: schema) (auto simp: js_bool_gt_never split: option.splits)

lemma extractMicrodataProperties_unchanged:
  "extractMicrodataProperties anc item schema = Inr schema"
  by (simp add: extractMicrodataProperties_def microdata_each_unchanged)

text \<open>
  C1 (the code at the failing input): the item
  \<^verbatim>\<open><div itemscope itemtype="http://schema.org/Product"><span itemprop="name">Widget</span></div>\<close>
  has the descendant \<^verbatim>\<open>span\<close> with item-property \<^verbatim>\<open>name\<close>, in no nested scope, whose
  value by the precedence rule is the text \<^verbatim>\<open>Widget\<close>; the extraction nevertheless
  returns the schema object without a \<^verbatim>\<open>name\<close> entry.
\<close>

theorem C1_microdata_property_not_extracted:
  "descendants_anc [] example_item = [(example_prop, [example_item])]
   \<and> getMicrodataValue example_prop = Inr (JStr ''Widget'')
   \<and> extractMicrodataProperties [] example_item example_item_schema = Inr example_item_schema
   \<and> map_of example_item_schema ''name'' = None"
  by (simp add: extractMicrodataProperties_unchanged descendants_anc_def example_item_def
        example_prop_def getMicrodataValue_def trim_def is_space_def example_item_schema_def)

section \<open>Theorems: JSON-LD blocks\<close>

lemma processSchema_throws:
  "processSchema schema fmt = Inl ''this._validateSchemaType is not a function''"
  by (simp add: processSchema_def validateSchemaType_def)

lemma lower_ld_json: "toLowerCase ''application/ld+json'' = ''application/ld+json''"
  by code_simp

lemma jsonLd_block_decode_failure:
  "JSON_parse h (text_of elem) = Inl msg \<Longrightarrow>
   jsonLd_block h elem results =
     results\<lparr> errors := errors results @ [''Invalid JSON-LD: '' @ msg],
              critical := critical results + 1 \<rparr>"
  by (simp add: jsonLd_block_def invalidJsonLd_def)

text \<open>
  C4 (the code at the failing input): on the page with the malformed block
  \<^verbatim>\<open>{bad\<close> followed by the valid block \<^verbatim>\<open>{"@type":"Product","name":"Widget"}\<close>,
  the malformed block gives one error and one critical count and the loop goes on to
  the second block, but the valid block gives a second \<^verbatim>\<open>Invalid JSON-LD\<close> error and a
  second critical count instead of a SchemaRecord: no record is stored.
\<close>

theorem C4_valid_sibling_block_yields_no_record:
  "parseJsonLd example_host example_jsonld_page (init_results u now) =
     (init_results u now)
       \<lparr> errors := [''Invalid JSON-LD: Unexpected token b in JSON at position 1'',
                    ''Invalid JSON-LD: this._validateSchemaType is not a function''],
         critical := 2 \<rparr>
   \<and> jsonLd (parseJsonLd example_host example_jsonld_page (init_results u now)) = []
   \<and> schemas (parseJsonLd example_host example_jsonld_page (init_results u now)) = []"
  by (simp add: parseJsonLd_def jsonLd_scripts_def elements_def example_jsonld_page_def
        has_tag_def attr_is_ci_def lower_ld_json jsonLd_block_def example_host_def
        invalidJsonLd_def processSchema_throws init_results_def)

section \<open>Theorems: Product validation\<close>

text \<open>
  C8 (as amended): for a Product record whose only property is a name with a truthy
  value (a non-empty string, say), \<^verbatim>\<open>_validateProduct\<close> appends exactly one
  required-property error, the one naming \<^verbatim>\<open>image\<close>, and counts one critical issue;
  the recommended-properties check appends exactly one combined warning that lists
  description, sku, offers, aggregateRating, brand and review, and counts one warning
  for it (not one per property). The validator's last check then adds its own
  ratings/reviews warning, so the record's warnings are those two.
\<close>

theorem C8_validateProduct_only_name:
  assumes "properties schema = [(''name'', v)]" and "truthy v" and "stype schema = JStr ''Product''"
  shows "checkRequiredProperties schema [''name'', ''image''] results =
           results\<lparr> errors := errors results @ [''Product missing required property: image''],
                    critical := critical results + 1 \<rparr>
       \<and> checkRecommendedProperties schema
           [''description'', ''sku'', ''offers'', ''aggregateRating'', ''brand'', ''review''] results =
           results\<lparr> warnings := warnings results @
                      [''Product missing recommended properties: description, sku, offers, aggregateRating, brand, review''],
                    issue_warnings := issue_warnings results + 1 \<rparr>
       \<and> validateProduct schema results =
           Done (results\<lparr> errors := errors results @ [''Product missing required property: image''],
                          critical := critical results + 1,
                          warnings := warnings results @
                            [''Product missing recommended properties: description, sku, offers, aggregateRating, brand, review'',
                             ''Product missing ratings/reviews - needed for rich results''],
                          issue_warnings := issue_warnings results + 2 \<rparr>)"
  using assms
  by (simp add: validateProduct_def checkRequiredProperties_def checkRecommendedProperties_def
        has_prop_def add_error_def add_warning_def Let_def)

theorem C8_validateProduct_witness:
  "validateProduct product_only_name (init_results ''https://example.com'' [])
     = Done ((init_results ''https://example.com'' [])
         \<lparr> errors := [''Product missing required property: image''],
           critical := 1,
           warnings :=
             [''Product missing recommended properties: description, sku, offers, aggregateRating, brand, review'',
              ''Product missing ratings/reviews - needed for rich results''],
           issue_warnings := 2 \<rparr>)"
  using C8_validateProduct_only_name [of product_only_name "JStr ''Widget''"
          "init_results ''https://example.com'' []"]
  by (simp add: product_only_name_def init_results_def)

text \<open>
  C8 (counterexample): a property counts as present when its value is truthy. For the
  Product record whose only property is the name \<^verbatim>\<open>""\<close>, the validator appends two
  required-property errors, one naming \<^verbatim>\<open>name\<close> and one naming \<^verbatim>\<open>image\<close>, and counts
  two critical issues.
\<close>

theorem C8_empty_name_counterexample:
  "validateProduct product_empty_name (init_results ''https://example.com'' [])
     = Done ((init_results ''https://example.com'' [])
         \<lparr> errors := [''Product missing required property: name'',
                      ''Product missing required property: image''],
           critical := 2,
           warnings :=
             [''Product missing recommended properties: description, sku, offers, aggregateRating, brand, review'',
              ''Product missing ratings/reviews - needed for rich results''],
           issue_warnings := 2 \<rparr>)"
  by (simp add: validateProduct_def checkRequiredProperties_def checkRecommendedProperties_def
        has_prop_def add_error_def add_warning_def Let_def product_empty_name_def init_results_def)

section \<open>Theorems: the CSV report\<close>

text \<open>
  C7 (the code at the failing input): for the result of the repository's test whose
  title is \<^verbatim>\<open>Title with "quotes"\<close>, the report has the header row and one data row and
  every cell is enclosed in double quotes, but the quotes inside the title are not
  doubled: the text \<^verbatim>\<open>Title with ""quotes""\<close> that the test expects does not occur.
\<close>

theorem C7_generateCSV_quotes_not_doubled:
  \<open>generateCSV (Single quotes_result) =
     ''"URL","Title","Title Length","Description","Description Length","H1 Count","Images Total","Images Without Alt","Score","Issues","Warnings"''
     @ [CHR 0x0A] @
     ''"https://example.com","Title with "quotes"","18","Description","11","0","0","0","100","0","0"''
   \<and> str_includes (generateCSV (Single quotes_result)) ''Title with ""quotes""'' = False\<close>
  by code_simp

section \<open>Theorems: a failed fetch\<close>

text \<open>
  When the fetch fails, \<^verbatim>\<open>parse\<close> and the meta \<^verbatim>\<open>extract\<close> return a result record
  whose status is \<^verbatim>\<open>error\<close> and whose error field holds the failure message; the
  message is also appended to the validation errors, respectively the issues; every
  other field keeps the value it was created with.
\<close>

lemma failed_fetch_result:
  "parse h now u (Inl msg) =
     (init_results u now)\<lparr> status := ''error'', error := Some msg,
                           errors := [''Failed to fetch URL: '' @ msg] \<rparr>
   \<and> extractMeta h now u (Inl msg) =
     (init_meta u now)\<lparr> m_status := ''error'', m_error := Some msg,
                        issues := [''Failed to analyze URL: '' @ msg] \<rparr>"
  by (simp add: parse_def parse_catch_def extractMeta_def extract_catch_def init_results_def
        init_meta_def)

text \<open>
  C2 (the code at the failing input): for the URL \<^verbatim>\<open>https://example.com\<close> whose fetch
  fails with the message \<^verbatim>\<open>Network error\<close>, both modules return a record with status
  \<^verbatim>\<open>error\<close> and that message, but the score of the record is 100, the value the
  record was created with: it is neither 0 nor absent.
\<close>

theorem C2_failed_fetch_leaves_score_100:
  "status (parse example_host ''2024-01-15T09:00:00.000Z'' ''https://example.com''
             (Inl ''Network error'')) = ''error''
   \<and> error (parse example_host ''2024-01-15T09:00:00.000Z'' ''https://example.com''
             (Inl ''Network error'')) = Some ''Network error''
   \<and> score (parse example_host ''2024-01-15T09:00:00.000Z'' ''https://example.com''
             (Inl ''Network error'')) = 100
   \<and> m_status (extractMeta example_host ''2024-01-15T09:00:00.000Z'' ''https://example.com''
             (Inl ''Network error'')) = ''error''
   \<and> m_error (extractMeta example_host ''2024-01-15T09:00:00.000Z'' ''https://example.com''
             (Inl ''Network error'')) = Some ''Network error''
   \<and> m_score (extractMeta example_host ''2024-01-15T09:00:00.000Z'' ''https://example.com''
             (Inl ''Network error'')) = 100"
  by (simp add: failed_fetch_result init_results_def init_meta_def)

section \<open>Lemmas: the steps of the meta extraction\<close>

lemmas meta_basic = deduct_def push_issue_def push_warning_def meta_set_def set_title_def
  set_description_def push_headings_def delete_counter_def Let_def

subsection \<open>What each step does to the score\<close>

lemma score_extractTitle:
  "m_score r - 20 \<le> m_score (extractTitle doc r) \<and> m_score (extractTitle doc r) \<le> m_score r"
  by (simp add: extractTitle_def meta_basic)

lemma score_extractDescription:
  "m_score r - 15 \<le> m_score (extractDescription doc r)
   \<and> m_score (extractDescription doc r) \<le> m_score r"
  by (simp add: extractDescription_def meta_basic split: option.splits)

lemma score_extractKeywords: "m_score (extractKeywords doc r) = m_score r"
  by (simp add: extractKeywords_def meta_basic)

lemma score_extractRobots: "m_score (extractRobots doc r) = m_score r"
  by (simp add: extractRobots_def meta_basic)

lemma score_extractViewport:
  "m_score r - 10 \<le> m_score (extractViewport doc r) \<and> m_score (extractViewport doc r) \<le> m_score r"
  by (simp add: extractViewport_def meta_basic)

lemma score_extractCharset: "m_score (extractCharset doc r) = m_score r"
  by (simp add: extractCharset_def meta_basic)

lemma score_tags_forEach: "m_score (snd (tags_forEach a p ts doc acc)) = m_score (snd acc)"
  by (induction ts arbitrary: acc) (simp_all add: meta_basic)

lemma score_extractOpenGraphTags:
  "m_score r - 5 \<le> m_score (extractOpenGraphTags doc r)
   \<and> m_score (extractOpenGraphTags doc r) \<le> m_score r"
  by (simp add: extractOpenGraphTags_def meta_basic score_tags_forEach del: tags_forEach.simps)

lemma score_extractTwitterCardTags:
  "m_score r - 3 \<le> m_score (extractTwitterCardTags doc r)
   \<and> m_score (extractTwitterCardTags doc r) \<le> m_score r"
  by (simp add: extractTwitterCardTags_def meta_basic score_tags_forEach del: tags_forEach.simps)

lemma score_extractMetaTags:
  "m_score r - 33 \<le> m_score (extractMetaTags doc r) \<and> m_score (extractMetaTags doc r) \<le> m_score r"
proof -
  let ?r1 = "extractDescription doc r"
  let ?r2 = "extractViewport doc (extractRobots doc (extractKeywords doc ?r1))"
  let ?r3 = "extractOpenGraphTags doc (extractCharset doc ?r2)"
  have "m_score r - 15 \<le> m_score ?r1 \<and> m_score ?r1 \<le> m_score r"
    by (rule score_extractDescription)
  moreover have "m_score ?r1 - 10 \<le> m_score ?r2 \<and> m_score ?r2 \<le> m_score ?r1"
    using score_extractViewport [of "extractRobots doc (extractKeywords doc ?r1)" doc]
    by (simp add: score_extractRobots score_extractKeywords)
  moreover have "m_score ?r2 - 5 \<le> m_score ?r3 \<and> m_score ?r3 \<le> m_score ?r2"
    using score_extractOpenGraphTags [of "extractCharset doc ?r2" doc]
    by (simp add: score_extractCharset)
  moreover have "m_score ?r3 - 3 \<le> m_score (extractTwitterCardTags doc ?r3)
                 \<and> m_score (extractTwitterCardTags doc ?r3) \<le> m_score ?r3"
    by (rule score_extractTwitterCardTags)
  ultimately show ?thesis unfolding extractMetaTags_def by linarith
qed

lemma score_extractCanonical:
  "m_score r - 5 \<le> m_score (extractCanonical h doc r)
   \<and> m_score (extractCanonical h doc r) \<le> m_score r"
  by (simp add: extractCanonical_def meta_basic split: sum.splits)

lemma score_extractHeadings:
  "m_score r - 13 \<le> m_score (extractHeadings doc r) \<and> m_score (extractHeadings doc r) \<le> m_score r"
  by (simp add: extractHeadings_def meta_basic)

lemma score_image_fold: "m_score (foldl image_step r es) = m_score r"
  by (induction es arbitrary: r) (simp_all add: image_step_def Let_def)

lemma score_extractImages:
  "m_score r - 20 \<le> m_score (extractImages doc r) \<and> m_score (extractImages doc r) \<le> m_score r"
  by (auto simp add: extractImages_def meta_basic score_image_fold min_def)

lemma score_link_fold: "m_score (foldl (link_step h u ph) r es) = m_score r"
  by (induction es arbitrary: r) (simp_all add: link_step_def Let_def split: sum.splits)

lemma score_extractLinks: "m_score (extractLinks h u ph doc r) = m_score r"
  by (simp add: extractLinks_def meta_basic score_link_fold split: option.splits)

lemma score_analyzeResults: "m_score (analyzeResults r) = m_score r"
  by (simp add: analyzeResults_def)

lemma score_extract_steps:
  "m_score r - 91 \<le> m_score (extract_steps h u ph doc r)
   \<and> m_score (extract_steps h u ph doc r) \<le> m_score r"
proof -
  let ?r1 = "extractTitle doc r"
  let ?r2 = "extractMetaTags doc ?r1"
  let ?r3 = "extractCanonical h doc ?r2"
  let ?r4 = "extractHeadings doc ?r3"
  let ?r5 = "extractImages doc ?r4"
  have "m_score r - 20 \<le> m_score ?r1 \<and> m_score ?r1 \<le> m_score r"
    by (rule score_extractTitle)
  moreover have "m_score ?r1 - 33 \<le> m_score ?r2 \<and> m_score ?r2 \<le> m_score ?r1"
    by (rule score_extractMetaTags)
  moreover have "m_score ?r2 - 5 \<le> m_score ?r3 \<and> m_score ?r3 \<le> m_score ?r2"
    by (rule score_extractCanonical)
  moreover have "m_score ?r3 - 13 \<le> m_score ?r4 \<and> m_score ?r4 \<le> m_score ?r3"
    by (rule score_extractHeadings)
  moreover have "m_score ?r4 - 20 \<le> m_score ?r5 \<and> m_score ?r5 \<le> m_score ?r4"
    by (rule score_extractImages)
  moreover have "m_score (extract_steps h u ph doc r) = m_score ?r5"
    by (simp add: extract_steps_def score_analyzeResults score_extractLinks)
  ultimately show ?thesis by linarith
qed

lemma meta_score_bounds:
  "9 \<le> m_score (extractMeta h now u page) \<and> m_score (extractMeta h now u page) \<le> 100"
proof (cases page)
  case (Inl msg)
  then show ?thesis by (simp add: extractMeta_def extract_catch_def init_meta_def)
next
  case (Inr doc)
  show ?thesis
  proof (cases "URL_parse h u")
    case (Inl msg)
    with Inr show ?thesis by (simp add: extractMeta_def extract_catch_def init_meta_def)
  next
    case (Inr ph)
    have "m_score (init_meta u now) = 100" by (simp add: init_meta_def)
    with score_extract_steps [of "init_meta u now" h u ph doc] Inr \<open>page = Inr doc\<close>
    show ?thesis by (simp add: extractMeta_def)
  qed
qed

subsection \<open>Fields a step leaves alone\<close>

lemma frame_tags_forEach:
  "image_fields (snd (tags_forEach a p ts doc acc)) = image_fields (snd acc)
   \<and> link_fields (snd (tags_forEach a p ts doc acc)) = link_fields (snd acc)"
  by (induction ts arbitrary: acc) (simp_all add: meta_basic image_fields_def link_fields_def)

lemma frame_extractTitle:
  "image_fields (extractTitle doc r) = image_fields r
   \<and> link_fields (extractTitle doc r) = link_fields r"
  by (simp add: extractTitle_def meta_basic image_fields_def link_fields_def)

lemma frame_extractMetaTags:
  "image_fields (extractMetaTags doc r) = image_fields r
   \<and> link_fields (extractMetaTags doc r) = link_fields r"
proof -
  have d: "\<And>r. image_fields (extractDescription doc r) = image_fields r
              \<and> link_fields (extractDescription doc r) = link_fields r"
    by (simp add: extractDescription_def meta_basic image_fields_def link_fields_def
          split: option.splits)
  have k: "\<And>r. image_fields (extractKeywords doc r) = image_fields r
              \<and> link_fields (extractKeywords doc r) = link_fields r"
    by (simp add: extractKeywords_def meta_basic image_fields_def link_fields_def)
  have ro: "\<And>r. image_fields (extractRobots doc r) = image_fields r
               \<and> link_fields (extractRobots doc r) = link_fields r"
    by (simp add: extractRobots_def meta_basic image_fields_def link_fields_def)
  have v: "\<And>r. image_fields (extractViewport doc r) = image_fields r
              \<and> link_fields (extractViewport doc r) = link_fields r"
    by (simp add: extractViewport_def meta_basic image_fields_def link_fields_def)
  have c: "\<And>r. image_fields (extractCharset doc r) = image_fields r
              \<and> link_fields (extractCharset doc r) = link_fields r"
    by (simp add: extractCharset_def meta_basic image_fields_def link_fields_def)
  have og: "\<And>r. image_fields (extractOpenGraphTags doc r) = image_fields r
               \<and> link_fields (extractOpenGraphTags doc r) = link_fields r"
    using frame_tags_forEach
    by (simp add: extractOpenGraphTags_def meta_basic image_fields_def link_fields_def
          del: tags_forEach.simps)
  have tw: "\<And>r. image_fields (extractTwitterCardTags doc r) = image_fields r
               \<and> link_fields (extractTwitterCardTags doc r) = link_fields r"
    using frame_tags_forEach
    by (simp add: extractTwitterCardTags_def meta_basic image_fields_def link_fields_def
          del: tags_forEach.simps)
  show ?thesis by (simp add: extractMetaTags_def d k ro v c og tw)
qed

lemma frame_extractCanonical:
  "image_fields (extractCanonical h doc r) = image_fields r
   \<and> link_fields (extractCanonical h doc r) = link_fields r"
  by (simp add: extractCanonical_def meta_basic image_fields_def link_fields_def split: sum.splits)

lemma frame_extractHeadings:
  "image_fields (extractHeadings doc r) = image_fields r
   \<and> link_fields (extractHeadings doc r) = link_fields r"
  by (simp add: extractHeadings_def meta_basic image_fields_def link_fields_def)

lemma frame_analyzeResults:
  "image_fields (analyzeResults r) = image_fields r
   \<and> link_fields (analyzeResults r) = link_fields r"
  by (simp add: analyzeResults_def image_fields_def link_fields_def)

lemma frame_image_fold: "link_fields (foldl image_step r es) = link_fields r"
  by (induction es arbitrary: r) (simp_all add: image_step_def Let_def link_fields_def)

lemma frame_extractImages: "link_fields (extractImages doc r) = link_fields r"
  using frame_image_fold [of r "select (has_tag ''img'') doc"]
  by (simp add: extractImages_def meta_basic link_fields_def)

lemma frame_link_fold: "image_fields (foldl (link_step h u ph) r es) = image_fields r"
  by (induction es arbitrary: r)
     (simp_all add: link_step_def Let_def image_fields_def split: sum.splits)

lemma frame_extractLinks: "image_fields (extractLinks h u ph doc r) = image_fields r"
  using frame_link_fold [of h u ph r "select (\<lambda>e. has_tag ''a'' e \<and> has_attr ''href'' e) doc"]
  by (simp add: extractLinks_def meta_basic image_fields_def split: option.splits)

lemma before_images:
  "image_fields (extractHeadings doc (extractCanonical h doc (extractMetaTags doc
       (extractTitle doc (init_meta u now))))) = (0, 0, 0, [])"
  by (simp add: frame_extractHeadings frame_extractCanonical frame_extractMetaTags
        frame_extractTitle) (simp add: image_fields_def init_meta_def)

lemma before_links:
  "link_fields (extractImages doc (extractHeadings doc (extractCanonical h doc
       (extractMetaTags doc (extractTitle doc (init_meta u now)))))) = (0, 0, 0)"
  by (simp add: frame_extractImages frame_extractHeadings frame_extractCanonical
        frame_extractMetaTags frame_extractTitle) (simp add: link_fields_def init_meta_def)

subsection \<open>The image loop\<close>

lemma trim_empty: "(trim s = []) = list_all is_space s"
proof (cases "dropWhile is_space s")
  case Nil
  then have "list_all is_space s" by (simp add: list_all_iff dropWhile_eq_Nil_conv)
  moreover have "trim s = []" unfolding trim_def Nil by simp
  ultimately show ?thesis by simp
next
  case (Cons c cs)
  then have "\<not> is_space c" using hd_dropWhile [of is_space s] by simp
  moreover have "c \<in> set (rev (dropWhile is_space s))" using Cons by simp
  ultimately have "dropWhile is_space (rev (dropWhile is_space s)) \<noteq> []"
    by (metis dropWhile_eq_Nil_conv)
  moreover have "\<not> list_all is_space s"
    using Cons by (metis dropWhile_eq_Nil_conv list.distinct(1) list_all_iff)
  ultimately show ?thesis by (simp add: trim_def)
qed

lemma has_alt_iff:
  "(truthy_str (attr e ''alt'') \<and> trim (or_str (attr e ''alt'') []) \<noteq> []) = (\<not> alt_missing e)"
  by (cases "attr e ''alt''") (auto simp: alt_missing_def trim_empty)

lemma image_step_total:
  "images_total (image_step r e) = images_total r + (if counted_image e then 1 else 0)"
  by (simp add: image_step_def Let_def counted_image_def)

lemma image_step_withAlt:
  "images_withAlt (image_step r e)
     = images_withAlt r + (if counted_image e \<and> \<not> alt_missing e then 1 else 0)"
  using has_alt_iff [of e] by (simp add: image_step_def Let_def counted_image_def)

lemma image_step_withoutAlt:
  "images_withoutAlt (image_step r e)
     = images_withoutAlt r + (if counted_image e \<and> alt_missing e then 1 else 0)"
  using has_alt_iff [of e] by (simp add: image_step_def Let_def counted_image_def)

lemma image_step_srcs:
  "map img_src (images (image_step r e))
     = map img_src (images r) @ (if counted_image e then [or_str (attr e ''src'') []] else [])"
  by (simp add: image_step_def Let_def counted_image_def)

lemma images_fold_total:
  "images_total (foldl image_step r es) = images_total r + length (filter counted_image es)"
  by (induction es arbitrary: r) (simp_all add: image_step_total)

lemma images_fold_withAlt:
  "images_withAlt (foldl image_step r es)
     = images_withAlt r + length (filter (\<lambda>e. \<not> alt_missing e) (filter counted_image es))"
  by (induction es arbitrary: r) (simp_all add: image_step_withAlt)

lemma images_fold_withoutAlt:
  "images_withoutAlt (foldl image_step r es)
     = images_withoutAlt r + length (filter alt_missing (filter counted_image es))"
  by (induction es arbitrary: r) (simp_all add: image_step_withoutAlt)

lemma images_fold_srcs:
  "map img_src (images (foldl image_step r es))
     = map img_src (images r) @ map (\<lambda>e. or_str (attr e ''src'') []) (filter counted_image es)"
  by (induction es arbitrary: r) (simp_all add: image_step_srcs)

lemma image_fields_extractImages:
  "image_fields (extractImages doc r) = image_fields (foldl image_step r (img_elements doc))"
  by (simp add: extractImages_def meta_basic image_fields_def img_elements_def)

lemma image_fields_extract_steps:
  "image_fields (extract_steps h u ph doc (init_meta u now))
     = image_fields (foldl image_step
         (extractHeadings doc (extractCanonical h doc (extractMetaTags doc
            (extractTitle doc (init_meta u now))))) (img_elements doc))"
  by (simp add: extract_steps_def frame_analyzeResults frame_extractLinks
        image_fields_extractImages)

subsection \<open>The link loop\<close>

lemma link_step_total:
  "links_total (link_step h u ph r e) = links_total r + (if counted_link e then 1 else 0)"
  by (simp add: link_step_def Let_def counted_link_def split: sum.splits)

lemma link_step_classified:
  "links_internal (link_step h u ph r e) + links_external (link_step h u ph r e)
     = links_internal r + links_external r
       + (if counted_link e \<and> \<not> malformed_link h u e then 1 else 0)"
  by (auto simp add: link_step_def Let_def counted_link_def malformed_link_def split: sum.splits)

lemma links_fold_total:
  "links_total (foldl (link_step h u ph) r es) = links_total r + length (filter counted_link es)"
  by (induction es arbitrary: r) (simp_all add: link_step_total)

lemma links_fold_classified:
  "links_internal (foldl (link_step h u ph) r es) + links_external (foldl (link_step h u ph) r es)
     = links_internal r + links_external r
       + length (filter (\<lambda>e. \<not> malformed_link h u e) (filter counted_link es))"
  by (induction es arbitrary: r) (simp_all add: link_step_classified)

lemma link_fields_extractLinks:
  "link_fields (extractLinks h u ph doc r)
     = link_fields (foldl (link_step h u ph) r (anchors doc))"
  by (simp add: extractLinks_def meta_basic link_fields_def anchors_def split: option.splits)

lemma link_fields_extract_steps:
  "link_fields (extract_steps h u ph doc (init_meta u now))
     = link_fields (foldl (link_step h u ph)
         (extractImages doc (extractHeadings doc (extractCanonical h doc (extractMetaTags doc
            (extractTitle doc (init_meta u now)))))) (anchors doc))"
  by (simp add: extract_steps_def frame_analyzeResults link_fields_extractLinks)

section \<open>Theorems: the meta score\<close>

text \<open>
  C5 (as amended): the meta extractor subtracts its deductions from 100 without
  clamping the result, and the deductions of one run sum to 91 at most (title 20,
  meta tags 33, canonical 5, headings 13, images 20): the returned score lies
  between 9 and 100 for every input.
\<close>

theorem C5_meta_score_between_9_and_100:
  "9 \<le> m_score (extractMeta h now u page) \<and> m_score (extractMeta h now u page) \<le> 100"
  by (rule meta_score_bounds)

text \<open>C5 (counterexample): no input document gives a meta score below 0.\<close>

theorem C5_meta_score_never_negative:
  "\<not> (\<exists>h now u page. m_score (extractMeta h now u page) < 0)"
proof
  assume "\<exists>h now u page. m_score (extractMeta h now u page) < 0"
  then obtain h now u page where "m_score (extractMeta h now u page) < 0" by blast
  moreover have "9 \<le> m_score (extractMeta h now u page)" using meta_score_bounds by blast
  ultimately show False by linarith
qed

section \<open>Theorems: the link counters\<close>

text \<open>
  C6 (as amended): an anchor whose \<^verbatim>\<open>href\<close> fails URL resolution is counted in
  \<^verbatim>\<open>links.total\<close> and in neither \<^verbatim>\<open>links.internal\<close> nor \<^verbatim>\<open>links.external\<close>: the
  total is the number of anchors with a non-empty, non-fragment \<^verbatim>\<open>href\<close>, internal
  plus external is the number of those that resolve, and the total exceeds their sum
  by the number of malformed ones.
\<close>

theorem C6_link_counters:
  assumes "URL_parse h u = Inr pageHost"
  shows "links_total (extractMeta h now u (Inr doc)) = length (filter counted_link (anchors doc))
     \<and> links_internal (extractMeta h now u (Inr doc)) + links_external (extractMeta h now u (Inr doc))
         = length (filter (\<lambda>e. \<not> malformed_link h u e) (filter counted_link (anchors doc)))
     \<and> links_total (extractMeta h now u (Inr doc))
         = links_internal (extractMeta h now u (Inr doc))
           + links_external (extractMeta h now u (Inr doc))
           + length (filter (malformed_link h u) (filter counted_link (anchors doc)))"
proof -
  let ?before = "extractImages doc (extractHeadings doc (extractCanonical h doc (extractMetaTags doc
               (extractTitle doc (init_meta u now)))))"
  let ?r = "foldl (link_step h u pageHost) ?before (anchors doc)"
  let ?cs = "filter counted_link (anchors doc)"
  have start: "links_total ?before = 0 \<and> links_internal ?before = 0 \<and> links_external ?before = 0"
    using before_links [of doc h u now] by (simp add: link_fields_def)
  have "link_fields (extractMeta h now u (Inr doc)) = link_fields ?r"
    using assms by (simp add: extractMeta_def link_fields_extract_steps)
  then have same: "links_total (extractMeta h now u (Inr doc)) = links_total ?r
      \<and> links_internal (extractMeta h now u (Inr doc)) = links_internal ?r
      \<and> links_external (extractMeta h now u (Inr doc)) = links_external ?r"
    by (simp add: link_fields_def)
  have total: "links_total ?r = length ?cs"
    using start by (simp add: links_fold_total)
  have classified: "links_internal ?r + links_external ?r
      = length (filter (\<lambda>e. \<not> malformed_link h u e) ?cs)"
    using start by (simp add: links_fold_classified)
  have split: "length ?cs = length (filter (\<lambda>e. \<not> malformed_link h u e) ?cs)
      + length (filter (malformed_link h u) ?cs)"
    using sum_length_filter_compl [of "malformed_link h u" ?cs] by simp
  show ?thesis using same total classified split by simp
qed

theorem C6_link_counters_witness:
  "links_total (extractMeta example_host [] ''https://example.com'' (Inr example_page)) = 3
   \<and> links_internal (extractMeta example_host [] ''https://example.com'' (Inr example_page))
     + links_external (extractMeta example_host [] ''https://example.com'' (Inr example_page)) = 2"
proof -
  have "URL_parse example_host ''https://example.com'' = Inr ''example.com''"
    by (simp add: example_host_def)
  from C6_link_counters [OF this, of "[]" example_page]
  show ?thesis
    by (simp add: anchors_def select_def elements_def example_page_def has_tag_def has_attr_def
          counted_link_def malformed_link_def startsWith_def example_host_def)
qed

text \<open>C6 (counterexample): on the example page, whose third anchor has the
  \<^verbatim>\<open>href\<close> \<^verbatim>\<open>http://[\<close>, the total is 3 while internal and external are 1 each.\<close>

theorem C6_malformed_href_counted_in_total:
  "links_total (extractMeta example_host [] ''https://example.com'' (Inr example_page)) = 3
   \<and> links_internal (extractMeta example_host [] ''https://example.com'' (Inr example_page)) = 1
   \<and> links_external (extractMeta example_host [] ''https://example.com'' (Inr example_page)) = 1
   \<and> links_total (extractMeta example_host [] ''https://example.com'' (Inr example_page))
       \<noteq> links_internal (extractMeta example_host [] ''https://example.com'' (Inr example_page))
         + links_external (extractMeta example_host [] ''https://example.com'' (Inr example_page))"
  by code_simp

section \<open>Theorems: the image counters\<close>

text \<open>
  C10: for a fetched page the image counters satisfy total = withAlt + withoutAlt;
  an \<^verbatim>\<open>img\<close> without (or with an empty) \<^verbatim>\<open>src\<close> is in none of the three counters
  and not in the images list, and a counted image whose \<^verbatim>\<open>alt\<close> is absent, empty or
  white space only (every code unit one that \<^verbatim>\<open>trim\<close> strips, the no-break space
  included) is counted in withoutAlt, every other one in withAlt.
\<close>

theorem C10_image_counters:
  assumes "URL_parse h u = Inr pageHost"
  shows "images_total (extractMeta h now u (Inr doc))
           = images_withAlt (extractMeta h now u (Inr doc))
             + images_withoutAlt (extractMeta h now u (Inr doc))
     \<and> images_total (extractMeta h now u (Inr doc))
           = length (filter counted_image (img_elements doc))
     \<and> images_withoutAlt (extractMeta h now u (Inr doc))
           = length (filter alt_missing (filter counted_image (img_elements doc)))
     \<and> images_withAlt (extractMeta h now u (Inr doc))
           = length (filter (\<lambda>e. \<not> alt_missing e) (filter counted_image (img_elements doc)))
     \<and> map img_src (images (extractMeta h now u (Inr doc)))
           = map (\<lambda>e. or_str (attr e ''src'') []) (filter counted_image (img_elements doc))"
proof -
  let ?before = "extractHeadings doc (extractCanonical h doc (extractMetaTags doc
               (extractTitle doc (init_meta u now))))"
  let ?r = "foldl image_step ?before (img_elements doc)"
  let ?cs = "filter counted_image (img_elements doc)"
  have start: "images_total ?before = 0 \<and> images_withAlt ?before = 0 \<and> images_withoutAlt ?before = 0
      \<and> images ?before = []"
    using before_images [of doc h u now] by (simp add: image_fields_def)
  have "image_fields (extractMeta h now u (Inr doc)) = image_fields ?r"
    using assms by (simp add: extractMeta_def image_fields_extract_steps)
  then have same: "images_total (extractMeta h now u (Inr doc)) = images_total ?r
      \<and> images_withAlt (extractMeta h now u (Inr doc)) = images_withAlt ?r
      \<and> images_withoutAlt (extractMeta h now u (Inr doc)) = images_withoutAlt ?r
      \<and> images (extractMeta h now u (Inr doc)) = images ?r"
    by (simp add: image_fields_def)
  have total: "images_total ?r = length ?cs"
    using start by (simp add: images_fold_total)
  have without: "images_withoutAlt ?r = length (filter alt_missing ?cs)"
    using start by (simp add: images_fold_withoutAlt)
  have withalt: "images_withAlt ?r = length (filter (\<lambda>e. \<not> alt_missing e) ?cs)"
    using start by (simp add: images_fold_withAlt)
  have srcs: "map img_src (images ?r) = map (\<lambda>e. or_str (attr e ''src'') []) ?cs"
    using start by (simp add: images_fold_srcs)
  have split: "length ?cs = length (filter (\<lambda>e. \<not> alt_missing e) ?cs)
      + length (filter alt_missing ?cs)"
    using sum_length_filter_compl [of alt_missing ?cs] by simp
  show ?thesis using same total without withalt srcs split by simp
qed

theorem C10_image_counters_witness:
  "images_total (extractMeta example_host [] ''https://example.com'' (Inr example_page)) = 3
   \<and> images_withAlt (extractMeta example_host [] ''https://example.com'' (Inr example_page)) = 2
   \<and> images_withoutAlt (extractMeta example_host [] ''https://example.com'' (Inr example_page)) = 1
   \<and> map img_src (images (extractMeta example_host [] ''https://example.com'' (Inr example_page)))
       = [''test1.jpg'', ''test2.jpg'', ''test3.jpg'']"
proof -
  have "URL_parse example_host ''https://example.com'' = Inr ''example.com''"
    by (simp add: example_host_def)
  from C10_image_counters [OF this, of "[]" example_page]
  show ?thesis
    by (simp add: img_elements_def select_def elements_def example_page_def has_tag_def
          counted_image_def alt_missing_def is_space_def)
qed

section \<open>Lemmas: the clock reading only reaches the timestamp\<close>

subsection \<open>The meta extraction\<close>

lemma ts_if:
  "(if c then x\<lparr>m_timestamp := t\<rparr> else y\<lparr>m_timestamp := t\<rparr>)
     = (if c then x else y)\<lparr>m_timestamp := t\<rparr>"
  by simp

lemma ts_sel:
  "meta_title (r\<lparr>m_timestamp := t\<rparr>) = meta_title r"
  "meta_description (r\<lparr>m_timestamp := t\<rparr>) = meta_description r"
  "h1 (r\<lparr>m_timestamp := t\<rparr>) = h1 r"
  "h2 (r\<lparr>m_timestamp := t\<rparr>) = h2 r"
  "h3 (r\<lparr>m_timestamp := t\<rparr>) = h3 r"
  "images (r\<lparr>m_timestamp := t\<rparr>) = images r"
  "images_withoutAlt (r\<lparr>m_timestamp := t\<rparr>) = images_withoutAlt r"
  "externalLinksNoRel (r\<lparr>m_timestamp := t\<rparr>) = externalLinksNoRel r"
  by simp_all

lemma ts_meta_set:
  "meta_set k v (r\<lparr>m_timestamp := t\<rparr>) = (meta_set k v r)\<lparr>m_timestamp := t\<rparr>"
  by (simp add: meta_set_def)

lemma ts_deduct: "deduct k (r\<lparr>m_timestamp := t\<rparr>) = (deduct k r)\<lparr>m_timestamp := t\<rparr>"
  by (simp add: deduct_def)

lemma ts_push_issue:
  "push_issue msg (r\<lparr>m_timestamp := t\<rparr>) = (push_issue msg r)\<lparr>m_timestamp := t\<rparr>"
  by (simp add: push_issue_def)

lemma ts_push_warning:
  "push_warning msg (r\<lparr>m_timestamp := t\<rparr>) = (push_warning msg r)\<lparr>m_timestamp := t\<rparr>"
  by (simp add: push_warning_def)

lemma ts_meta_truthy: "meta_truthy (r\<lparr>m_timestamp := t\<rparr>) k = meta_truthy r k"
  by (simp add: meta_truthy_def)

lemma ts_set_title:
  "set_title x (r\<lparr>m_timestamp := t\<rparr>) = (set_title x r)\<lparr>m_timestamp := t\<rparr>"
  by (simp add: set_title_def)

lemma ts_set_description:
  "set_description x (r\<lparr>m_timestamp := t\<rparr>) = (set_description x r)\<lparr>m_timestamp := t\<rparr>"
  by (simp add: set_description_def)

lemma ts_push_headings:
  "push_headings doc (r\<lparr>m_timestamp := t\<rparr>) = (push_headings doc r)\<lparr>m_timestamp := t\<rparr>"
  by (simp add: push_headings_def)

lemma ts_delete_counter:
  "delete_counter (r\<lparr>m_timestamp := t\<rparr>) = (delete_counter r)\<lparr>m_timestamp := t\<rparr>"
  by (simp add: delete_counter_def)

lemmas ts_prims = ts_meta_set ts_deduct ts_push_issue ts_push_warning ts_meta_truthy
  ts_set_title ts_set_description ts_push_headings ts_delete_counter ts_if ts_sel

lemma ts_tags_forEach:
  "tags_forEach a p ts doc (b, r\<lparr>m_timestamp := t\<rparr>)
     = (fst (tags_forEach a p ts doc (b, r)),
        (snd (tags_forEach a p ts doc (b, r)))\<lparr>m_timestamp := t\<rparr>)"
  by (induction ts arbitrary: b r) (simp_all add: Let_def ts_meta_set)

lemma ts_extractTitle:
  "extractTitle doc (r\<lparr>m_timestamp := t\<rparr>) = (extractTitle doc r)\<lparr>m_timestamp := t\<rparr>"
  by (simp only: extractTitle_def Let_def ts_prims)

lemma ts_extractDescription:
  "extractDescription doc (r\<lparr>m_timestamp := t\<rparr>) = (extractDescription doc r)\<lparr>m_timestamp := t\<rparr>"
  by (simp only: extractDescription_def Let_def ts_prims)

lemma ts_extractKeywords:
  "extractKeywords doc (r\<lparr>m_timestamp := t\<rparr>) = (extractKeywords doc r)\<lparr>m_timestamp := t\<rparr>"
  by (simp only: extractKeywords_def Let_def ts_prims)

lemma ts_extractRobots:
  "extractRobots doc (r\<lparr>m_timestamp := t\<rparr>) = (extractRobots doc r)\<lparr>m_timestamp := t\<rparr>"
  by (simp only: extractRobots_def Let_def ts_prims)

lemma ts_extractViewport:
  "extractViewport doc (r\<lparr>m_timestamp := t\<rparr>) = (extractViewport doc r)\<lparr>m_timestamp := t\<rparr>"
  by (simp only: extractViewport_def Let_def ts_prims)

lemma ts_extractCharset:
  "extractCharset doc (r\<lparr>m_timestamp := t\<rparr>) = (extractCharset doc r)\<lparr>m_timestamp := t\<rparr>"
  by (simp only: extractCharset_def Let_def ts_prims)

lemma ts_extractOpenGraphTags:
  "extractOpenGraphTags doc (r\<lparr>m_timestamp := t\<rparr>)
     = (extractOpenGraphTags doc r)\<lparr>m_timestamp := t\<rparr>"
  by (simp only: extractOpenGraphTags_def Let_def ts_tags_forEach fst_conv snd_conv ts_prims)

lemma ts_extractTwitterCardTags:
  "extractTwitterCardTags doc (r\<lparr>m_timestamp := t\<rparr>)
     = (extractTwitterCardTags doc r)\<lparr>m_timestamp := t\<rparr>"
  by (simp only: extractTwitterCardTags_def Let_def ts_tags_forEach fst_conv snd_conv ts_prims)

lemma ts_extractMetaTags:
  "extractMetaTags doc (r\<lparr>m_timestamp := t\<rparr>) = (extractMetaTags doc r)\<lparr>m_timestamp := t\<rparr>"
  by (simp only: extractMetaTags_def ts_extractDescription ts_extractKeywords ts_extractRobots
        ts_extractViewport ts_extractCharset ts_extractOpenGraphTags ts_extractTwitterCardTags)

lemma ts_extractCanonical:
  "extractCanonical h doc (r\<lparr>m_timestamp := t\<rparr>) = (extractCanonical h doc r)\<lparr>m_timestamp := t\<rparr>"
  by (simp only: extractCanonical_def Let_def ts_prims)

lemma ts_extractHeadings:
  "extractHeadings doc (r\<lparr>m_timestamp := t\<rparr>) = (extractHeadings doc r)\<lparr>m_timestamp := t\<rparr>"
  by (simp only: extractHeadings_def Let_def ts_prims)

lemma ts_image_step:
  "image_step (r\<lparr>m_timestamp := t\<rparr>) e = (image_step r e)\<lparr>m_timestamp := t\<rparr>"
  by (simp add: image_step_def Let_def)

lemma ts_image_fold:
  "foldl image_step (r\<lparr>m_timestamp := t\<rparr>) es = (foldl image_step r es)\<lparr>m_timestamp := t\<rparr>"
  by (induction es arbitrary: r) (simp_all add: ts_image_step)

lemma ts_extractImages:
  "extractImages doc (r\<lparr>m_timestamp := t\<rparr>) = (extractImages doc r)\<lparr>m_timestamp := t\<rparr>"
  by (simp only: extractImages_def Let_def ts_image_fold ts_prims)

lemma ts_link_step:
  "link_step h u ph (r\<lparr>m_timestamp := t\<rparr>) e = (link_step h u ph r e)\<lparr>m_timestamp := t\<rparr>"
  by (simp add: link_step_def Let_def split: sum.splits)

lemma ts_link_fold:
  "foldl (link_step h u ph) (r\<lparr>m_timestamp := t\<rparr>) es
     = (foldl (link_step h u ph) r es)\<lparr>m_timestamp := t\<rparr>"
  by (induction es arbitrary: r) (simp_all add: ts_link_step)

lemma ts_extractLinks:
  "extractLinks h u ph doc (r\<lparr>m_timestamp := t\<rparr>) = (extractLinks h u ph doc r)\<lparr>m_timestamp := t\<rparr>"
  by (simp only: extractLinks_def Let_def ts_link_fold ts_prims)

lemma ts_analyzeResults:
  "analyzeResults (r\<lparr>m_timestamp := t\<rparr>) = (analyzeResults r)\<lparr>m_timestamp := t\<rparr>"
  by (simp add: analyzeResults_def meta_truthy_def)

lemma ts_extract_steps:
  "extract_steps h u ph doc (r\<lparr>m_timestamp := t\<rparr>)
     = (extract_steps h u ph doc r)\<lparr>m_timestamp := t\<rparr>"
  by (simp only: extract_steps_def ts_extractTitle ts_extractMetaTags ts_extractCanonical
        ts_extractHeadings ts_extractImages ts_extractLinks ts_analyzeResults)

lemma ts_init_meta: "init_meta u t = (init_meta u t')\<lparr>m_timestamp := t\<rparr>"
  by (simp add: init_meta_def)

lemma ts_extractMeta:
  "extractMeta h t u page = (extractMeta h t' u page)\<lparr>m_timestamp := t\<rparr>"
proof (cases page)
  case (Inl msg)
  then show ?thesis by (simp add: extractMeta_def extract_catch_def init_meta_def)
next
  case (Inr doc)
  note page = this
  show ?thesis
  proof (cases "URL_parse h u")
    case (Inl msg)
    with page show ?thesis by (simp add: extractMeta_def extract_catch_def init_meta_def)
  next
    case (Inr ph)
    have "extract_steps h u ph doc (init_meta u t)
            = extract_steps h u ph doc ((init_meta u t')\<lparr>m_timestamp := t\<rparr>)"
      by (subst ts_init_meta [of u t t']) (rule refl)
    also have "\<dots> = (extract_steps h u ph doc (init_meta u t'))\<lparr>m_timestamp := t\<rparr>"
      by (rule ts_extract_steps)
    finally show ?thesis using Inr page by (simp add: extractMeta_def)
  qed
qed

subsection \<open>The structured-data parser\<close>

text \<open>Since \<open>processSchema\<close> always throws, each extraction loop either finds nothing
  to process or throws at the first candidate, with the results untouched.\<close>

lemma jsonLd_forEach_closed:
  "jsonLd_forEach ss r =
     (if list_ex (\<lambda>s. truthy s \<and> is_object s) ss
      then Threw ''this._validateSchemaType is not a function'' r else Done r)"
  by (induction ss arbitrary: r) (simp_all add: processSchema_throws)

lemma microdata_items_closed:
  "microdata_items ps r =
     (if list_ex (\<lambda>p. truthy_str (attr (fst p) ''itemtype'')) ps
      then Threw ''this._validateSchemaType is not a function'' r else Done r)"
  by (induction ps arbitrary: r)
     (auto simp: processSchema_throws extractMicrodataProperties_unchanged)

lemma rdfa_items_closed:
  "rdfa_items es r =
     (if list_ex (\<lambda>e. truthy_str (attr e ''typeof'')) es
      then Threw ''this._validateSchemaType is not a function'' r else Done r)"
  by (induction es arbitrary: r) (simp_all add: processSchema_throws)

lemma ts_invalidJsonLd:
  "invalidJsonLd msg (r\<lparr>timestamp := t\<rparr>) = (invalidJsonLd msg r)\<lparr>timestamp := t\<rparr>"
  by (simp add: invalidJsonLd_def)

lemma ts_jsonLd_block:
  "jsonLd_block h e (r\<lparr>timestamp := t\<rparr>) = (jsonLd_block h e r)\<lparr>timestamp := t\<rparr>"
  by (simp add: jsonLd_block_def jsonLd_forEach_closed ts_invalidJsonLd split: sum.splits)

lemma ts_jsonLd_fold:
  "foldl (\<lambda>r e. jsonLd_block h e r) (r\<lparr>timestamp := t\<rparr>) es
     = (foldl (\<lambda>r e. jsonLd_block h e r) r es)\<lparr>timestamp := t\<rparr>"
  by (induction es arbitrary: r) (simp_all add: ts_jsonLd_block)

lemma ts_parseJsonLd:
  "parseJsonLd h doc (r\<lparr>timestamp := t\<rparr>) = (parseJsonLd h doc r)\<lparr>timestamp := t\<rparr>"
  by (simp add: parseJsonLd_def ts_jsonLd_fold)

lemma schemas_jsonLd_block: "schemas (jsonLd_block h e r) = schemas r"
  by (simp add: jsonLd_block_def jsonLd_forEach_closed invalidJsonLd_def split: sum.splits)

lemma schemas_jsonLd_fold: "schemas (foldl (\<lambda>r e. jsonLd_block h e r) r es) = schemas r"
  by (induction es arbitrary: r) (simp_all add: schemas_jsonLd_block)

lemma schemas_parseJsonLd: "schemas (parseJsonLd h doc r) = schemas r"
  by (simp add: parseJsonLd_def schemas_jsonLd_fold)

lemma ts_parseMicrodata:
  "parseMicrodata doc (r\<lparr>timestamp := t\<rparr>)
     = map_outcome (\<lambda>x. x\<lparr>timestamp := t\<rparr>) (parseMicrodata doc r)"
  by (simp add: parseMicrodata_def microdata_items_closed)

lemma ts_parseRDFa:
  "parseRDFa doc (r\<lparr>timestamp := t\<rparr>) = map_outcome (\<lambda>x. x\<lparr>timestamp := t\<rparr>) (parseRDFa doc r)"
  by (simp add: parseRDFa_def rdfa_items_closed)

lemma validateSchemas_none: "schemas r = [] \<Longrightarrow> validateSchemas h r = Done r"
  by (simp add: validateSchemas_def)

lemma ts_push_recommendation:
  "push_recommendation msg (r\<lparr>timestamp := t\<rparr>)
     = (push_recommendation msg r)\<lparr>timestamp := t\<rparr>"
  by (simp add: push_recommendation_def)

lemma ts_recommended_forEach:
  "recommended_forEach recs types (r\<lparr>timestamp := t\<rparr>)
     = map_outcome (\<lambda>x. x\<lparr>timestamp := t\<rparr>) (recommended_forEach recs types r)"
  by (induction recs arbitrary: r) (simp_all add: ts_push_recommendation split: sum.splits)

lemma ts_analyzeAndRecommend:
  "analyzeAndRecommend u (r\<lparr>timestamp := t\<rparr>)
     = map_outcome (\<lambda>x. x\<lparr>timestamp := t\<rparr>) (analyzeAndRecommend u r)"
proof (cases "recommended_forEach (recommended_for (detectPageType u (map stype (schemas r))))
                (map stype (schemas r)) r")
  case (Done r')
  then show ?thesis
    by (simp add: analyzeAndRecommend_def Let_def ts_recommended_forEach push_recommendation_def)
next
  case (Threw msg r')
  then show ?thesis
    by (simp add: analyzeAndRecommend_def Let_def ts_recommended_forEach)
qed

lemma ts_calculateScore:
  "calculateScore (r\<lparr>timestamp := t\<rparr>) = (calculateScore r)\<lparr>timestamp := t\<rparr>"
  by (simp add: calculateScore_def Let_def)

lemma ts_parse_catch:
  "parse_catch msg (r\<lparr>timestamp := t\<rparr>) = (parse_catch msg r)\<lparr>timestamp := t\<rparr>"
  by (simp add: parse_catch_def)

lemma parse_try_closed:
  assumes "schemas r = []"
  shows "parse_try h u doc r =
     (if list_ex (\<lambda>p. truthy_str (attr (fst p) ''itemtype''))
           (filter (\<lambda>p. has_attr ''itemscope'' (fst p)) (elements_anc [] doc))
         \<or> list_ex (\<lambda>e. truthy_str (attr e ''typeof'')) (filter (has_attr ''typeof'') (elements doc))
      then Threw ''this._validateSchemaType is not a function'' (parseJsonLd h doc r)
      else bind_outcome (analyzeAndRecommend u (parseJsonLd h doc r))
             (\<lambda>r4. Done (calculateScore r4)))"
  using assms
  by (simp add: parse_try_def parseMicrodata_def parseRDFa_def microdata_items_closed
        rdfa_items_closed validateSchemas_none schemas_parseJsonLd)

lemma ts_parse_try:
  assumes "schemas r = []"
  shows "parse_try h u doc (r\<lparr>timestamp := t\<rparr>)
           = map_outcome (\<lambda>x. x\<lparr>timestamp := t\<rparr>) (parse_try h u doc r)"
proof -
  have s: "schemas (r\<lparr>timestamp := t\<rparr>) = []" using assms by simp
  show ?thesis
  proof (cases "analyzeAndRecommend u (parseJsonLd h doc r)")
    case (Done r')
    then show ?thesis
      by (simp add: parse_try_closed [OF s] parse_try_closed [OF assms] ts_parseJsonLd
            ts_analyzeAndRecommend ts_calculateScore)
  next
    case (Threw msg r')
    then show ?thesis
      by (simp add: parse_try_closed [OF s] parse_try_closed [OF assms] ts_parseJsonLd
            ts_analyzeAndRecommend)
  qed
qed

lemma ts_init_results: "init_results u t = (init_results u t')\<lparr>timestamp := t\<rparr>"
  by (simp add: init_results_def)

lemma ts_parse: "parse h t u page = (parse h t' u page)\<lparr>timestamp := t\<rparr>"
proof (cases page)
  case (Inl msg)
  then show ?thesis by (simp add: parse_def parse_catch_def init_results_def)
next
  case (Inr doc)
  have e: "schemas (init_results u t') = []" by (simp add: init_results_def)
  have "parse_try h u doc (init_results u t)
          = parse_try h u doc ((init_results u t')\<lparr>timestamp := t\<rparr>)"
    by (subst ts_init_results [of u t t']) (rule refl)
  also have "\<dots> = map_outcome (\<lambda>x. x\<lparr>timestamp := t\<rparr>) (parse_try h u doc (init_results u t'))"
    by (rule ts_parse_try [OF e])
  finally have "parse_try h u doc (init_results u t)
      = map_outcome (\<lambda>x. x\<lparr>timestamp := t\<rparr>) (parse_try h u doc (init_results u t'))" .
  then show ?thesis using Inr
    by (cases "parse_try h u doc (init_results u t')") (simp_all add: parse_def ts_parse_catch)
qed

section \<open>The clock reading and the result\<close>

text \<open>
  \<^verbatim>\<open>parse\<close> and the meta \<^verbatim>\<open>extract\<close> store the clock reading at the call in the
  field \<^verbatim>\<open>timestamp\<close>, and it reaches no other field: the records of two calls on
  the same input, at the times \<open>t1\<close> and \<open>t2\<close>, differ in \<^verbatim>\<open>timestamp\<close> alone.
\<close>

theorem results_agree_except_timestamp:
  "parse h t2 u page = (parse h t1 u page)\<lparr>timestamp := t2\<rparr>
   \<and> extractMeta h t2 u page = (extractMeta h t1 u page)\<lparr>m_timestamp := t2\<rparr>"
  by (rule conjI, rule ts_parse, rule ts_extractMeta)

text \<open>The records of two calls on the example page one second apart are different.\<close>

theorem two_invocations_differ:
  "parse example_host ''2024-01-15T09:00:00.000Z'' ''https://example.com'' (Inr example_page)
     \<noteq> parse example_host ''2024-01-15T09:00:01.000Z'' ''https://example.com'' (Inr example_page)
   \<and> extractMeta example_host ''2024-01-15T09:00:00.000Z'' ''https://example.com'' (Inr example_page)
     \<noteq> extractMeta example_host ''2024-01-15T09:00:01.000Z'' ''https://example.com''
           (Inr example_page)"
proof -
  have p: "timestamp (parse h t u page) = t" for h t u page
    by (subst ts_parse [of h t u page "[]"]) simp
  have m: "m_timestamp (extractMeta h t u page) = t" for h t u page
    by (subst ts_extractMeta [of h t u page "[]"]) simp
  have "timestamp (parse example_host ''2024-01-15T09:00:00.000Z'' ''https://example.com''
                     (Inr example_page))
          \<noteq> timestamp (parse example_host ''2024-01-15T09:00:01.000Z'' ''https://example.com''
                     (Inr example_page))"
    by (simp add: p)
  moreover have "m_timestamp (extractMeta example_host ''2024-01-15T09:00:00.000Z''
                     ''https://example.com'' (Inr example_page))
          \<noteq> m_timestamp (extractMeta example_host ''2024-01-15T09:00:01.000Z''
                     ''https://example.com'' (Inr example_page))"
    by (simp add: m)
  ultimately show ?thesis by metis
qed

section \<open>Further properties of the parser and of the meta score\<close>

lemma lists_invalidJsonLd: "record_lists (invalidJsonLd msg r) = record_lists r"
  by (simp add: record_lists_def invalidJsonLd_def)

lemma lists_jsonLd_block: "record_lists (jsonLd_block h e r) = record_lists r"
  by (simp add: jsonLd_block_def jsonLd_forEach_closed lists_invalidJsonLd split: sum.splits)

lemma lists_jsonLd_fold: "record_lists (foldl (\<lambda>r e. jsonLd_block h e r) r es) = record_lists r"
  by (induction es arbitrary: r) (simp_all add: lists_jsonLd_block)

lemma lists_parseJsonLd: "record_lists (parseJsonLd h doc r) = record_lists r"
  by (simp add: parseJsonLd_def lists_jsonLd_fold)

lemma lists_push_recommendation: "record_lists (push_recommendation msg r) = record_lists r"
  by (simp add: record_lists_def push_recommendation_def)

lemma lists_recommended_forEach:
  "recommended_forEach recs types r = Done r' \<or> recommended_forEach recs types r = Threw m r'
   \<Longrightarrow> record_lists r' = record_lists r"
proof (induction recs arbitrary: r)
  case Nil
  then show ?case by simp
next
  case (Cons rec recs)
  show ?case
  proof (cases "some_type rec types")
    case (Inl msg)
    with Cons.prems show ?thesis by simp
  next
    case (Inr b)
    with Cons.prems Cons.IH [of "if \<not> b then push_recommendation
        (''Consider adding '' @ rec @ '' schema'') r else r"]
    show ?thesis by (simp add: lists_push_recommendation split: if_splits)
  qed
qed

lemma lists_analyzeAndRecommend:
  "analyzeAndRecommend u r = Done r' \<or> analyzeAndRecommend u r = Threw m r'
   \<Longrightarrow> record_lists r' = record_lists r"
proof (cases "recommended_forEach (recommended_for (detectPageType u (map stype (schemas r))))
                (map stype (schemas r)) r")
  case (Done r1)
  assume "analyzeAndRecommend u r = Done r' \<or> analyzeAndRecommend u r = Threw m r'"
  with Done have "record_lists r' = record_lists r1"
    by (auto simp: analyzeAndRecommend_def Let_def record_lists_def push_recommendation_def)
  moreover have "record_lists r1 = record_lists r"
    using Done lists_recommended_forEach by blast
  ultimately show ?thesis by simp
next
  case (Threw msg r1)
  assume "analyzeAndRecommend u r = Done r' \<or> analyzeAndRecommend u r = Threw m r'"
  with Threw have "r' = r1" by (simp add: analyzeAndRecommend_def Let_def)
  moreover have "record_lists r1 = record_lists r"
    using Threw lists_recommended_forEach by blast
  ultimately show ?thesis by simp
qed

lemma has_annotated_item_iff:
  "has_annotated_item doc =
     (list_ex (\<lambda>p. truthy_str (attr (fst p) ''itemtype''))
         (filter (\<lambda>p. has_attr ''itemscope'' (fst p)) (elements_anc [] doc))
      \<or> list_ex (\<lambda>e. truthy_str (attr e ''typeof'')) (filter (has_attr ''typeof'') (elements doc)))"
proof -
  have a: "list_ex P (filter Q xs) = list_ex (\<lambda>x. Q x \<and> P x) xs" for P Q and xs :: "'a list"
    by (induction xs) auto
  have b: "list_ex (\<lambda>p. P (fst p)) ps = list_ex P (map fst ps)" for P and ps :: "('a \<times> 'b) list"
    by (induction ps) auto
  have c: "truthy_str (attr e ''typeof'') \<Longrightarrow> has_attr ''typeof'' e" for e
    by (cases "attr e ''typeof''") (simp_all add: has_attr_def)
  have d: "list_ex (\<lambda>e. has_attr ''typeof'' e \<and> truthy_str (attr e ''typeof'')) es
             = list_ex (\<lambda>e. truthy_str (attr e ''typeof'')) es" for es
    by (induction es) (auto dest: c)
  show ?thesis
    unfolding has_annotated_item_def a elements_def d
    using b [of "\<lambda>e. has_attr ''itemscope'' e \<and> truthy_str (attr e ''itemtype'')"
              "elements_anc [] doc"]
    by simp
qed

text \<open>
  Whatever the page holds, \<^verbatim>\<open>parse\<close> returns no schema record: the four lists of
  records are empty in every result, since \<^verbatim>\<open>_processSchema\<close> throws before any record
  is stored.
\<close>

theorem parse_stores_no_schema_record:
  "schemas (parse h now u page) = [] \<and> jsonLd (parse h now u page) = []
   \<and> microdata (parse h now u page) = [] \<and> rdfa (parse h now u page) = []"
proof -
  have init: "record_lists (init_results u now) = ([], [], [], [])"
    by (simp add: record_lists_def init_results_def)
  have catch: "record_lists (parse_catch msg r) = record_lists r" for msg r
    by (simp add: record_lists_def parse_catch_def)
  have score: "record_lists (calculateScore r) = record_lists r" for r
    by (simp add: record_lists_def calculateScore_def Let_def)
  have "record_lists (parse h now u page) = ([], [], [], [])"
  proof (cases page)
    case (Inl msg)
    then show ?thesis by (simp add: parse_def catch init)
  next
    case (Inr doc)
    have e: "schemas (init_results u now) = []" by (simp add: init_results_def)
    let ?j = "parseJsonLd h doc (init_results u now)"
    have j: "record_lists ?j = ([], [], [], [])" by (simp add: lists_parseJsonLd init)
    show ?thesis
    proof (cases "analyzeAndRecommend u ?j")
      case (Done r4)
      then have "record_lists r4 = record_lists ?j" using lists_analyzeAndRecommend by blast
      with Done Inr j show ?thesis
        by (simp add: parse_def parse_try_closed [OF e] catch score)
    next
      case (Threw msg r4)
      then have "record_lists r4 = record_lists ?j" using lists_analyzeAndRecommend by blast
      with Threw Inr j show ?thesis
        by (simp add: parse_def parse_try_closed [OF e] catch score)
    qed
  qed
  then show ?thesis by (simp add: record_lists_def)
qed

text \<open>
  A page with a Microdata item that has an item type, or with an RDFa element that has
  a \<^verbatim>\<open>typeof\<close>, ends the audit in the catch block: the status is \<^verbatim>\<open>error\<close>, the
  error is the TypeError of the missing method, and the score stays 100.
\<close>

theorem parse_annotated_page_is_error:
  assumes "has_annotated_item doc"
  shows "status (parse h now u (Inr doc)) = ''error''
     \<and> error (parse h now u (Inr doc)) = Some ''this._validateSchemaType is not a function''
     \<and> score (parse h now u (Inr doc)) = 100"
proof -
  have e: "schemas (init_results u now) = []" by (simp add: init_results_def)
  have s: "score (foldl (\<lambda>r e. jsonLd_block h e r) r es) = score r" for r es
    by (induction es arbitrary: r)
       (simp_all add: jsonLd_block_def jsonLd_forEach_closed invalidJsonLd_def split: sum.splits)
  have "parse h now u (Inr doc)
          = parse_catch ''this._validateSchemaType is not a function''
              (parseJsonLd h doc (init_results u now))"
    using assms unfolding has_annotated_item_iff
    by (simp add: parse_def parse_try_closed [OF e])
  then show ?thesis
    by (simp add: parse_catch_def parseJsonLd_def s) (simp add: init_results_def)
qed

theorem parse_annotated_page_witness:
  "status (parse example_host [] ''https://example.com'' (Inr example_item)) = ''error''"
proof -
  have "has_annotated_item example_item"
    by (simp add: has_annotated_item_def elements_def example_item_def example_prop_def
          has_attr_def)
  from parse_annotated_page_is_error [OF this, of example_host "[]" "''https://example.com''"]
  show ?thesis by simp
qed

text \<open>The lower bound 9 of the meta score is attained: on the page where every
  deduction applies the score is 100 - 91.\<close>

theorem meta_score_9_attained:
  "m_score (extractMeta example_host [] ''https://example.com'' (Inr worst_page)) = 9"
  by code_simp

end
